theory Spec2Isabelle
  imports Complex_Main "HOL-Library.AList" "HOL-Library.List_Lexorder"
begin

section \<open>JavaScript strings\<close>

text \<open>
  A JavaScript string is a sequence of UTF-16 code units and \<open>length\<close> counts code
  units.  Code units are natural numbers here; \<open>js\<close> embeds an ASCII literal.
\<close>

type_synonym js_string = "nat list"

definition js :: "string \<Rightarrow> js_string" where
  "js s = map of_char s"

text \<open>
  \<open>String.prototype.trim\<close> removes WhiteSpace and LineTerminator code units from both
  ends: TAB, VT, FF, SP, NBSP, ZWNBSP, the space separators, LF, CR, LS and PS.
\<close>

definition isWhiteSpace :: "nat \<Rightarrow> bool" where
  "isWhiteSpace c \<longleftrightarrow>
     c = 9 \<or> c = 10 \<or> c = 11 \<or> c = 12 \<or> c = 13 \<or> c = 32 \<or> c = 160 \<or> c = 5760 \<or>
     (8192 \<le> c \<and> c \<le> 8202) \<or> c = 8232 \<or> c = 8233 \<or> c = 8239 \<or> c = 8287 \<or>
     c = 12288 \<or> c = 65279"

definition trim :: "js_string \<Rightarrow> js_string" where
  "trim s = rev (dropWhile isWhiteSpace (rev (dropWhile isWhiteSpace s)))"

section \<open>ProfileInputPanel: local validation of the display name\<close>

definition NAME_MIN_LENGTH :: nat where
  "NAME_MIN_LENGTH = 3"

definition NAME_MAX_LENGTH :: nat where
  "NAME_MAX_LENGTH = 20"

record ProfileInputPanel =
  displayName :: js_string
  errorMessage :: js_string

text \<open>\<open>validateName\<close> returns the verdict and the panel with its error message set.\<close>

definition validateName :: "ProfileInputPanel \<Rightarrow> bool \<times> ProfileInputPanel" where
  "validateName p =
     (let name = trim (displayName p) in
      if length name < NAME_MIN_LENGTH
      then (False, p\<lparr>errorMessage := js ''Name must be at least 3 characters''\<rparr>)
      else if length name > NAME_MAX_LENGTH
      then (False, p\<lparr>errorMessage := js ''Name must be at most 20 characters''\<rparr>)
      else (True, p\<lparr>errorMessage := []\<rparr>))"

text \<open>
  \<open>handleSubmit\<close> of the panel: the second component is the argument handed to the
  \<open>onSubmit\<close> callback, \<open>None\<close> when the callback is not invoked.
\<close>

definition panel_handleSubmit :: "ProfileInputPanel \<Rightarrow> ProfileInputPanel \<times> js_string option" where
  "panel_handleSubmit p =
     (case validateName p of
        (False, p') \<Rightarrow> (p', None)
      | (True, p') \<Rightarrow> (p', Some (trim (displayName p'))))"

definition setDisplayName :: "js_string \<Rightarrow> ProfileInputPanel \<Rightarrow> ProfileInputPanel" where
  "setDisplayName name p = p\<lparr>displayName := name, errorMessage := []\<rparr>"

definition panel_reset :: "ProfileInputPanel \<Rightarrow> ProfileInputPanel" where
  "panel_reset p = p\<lparr>displayName := [], errorMessage := []\<rparr>"

section \<open>UISystem: the panel registry\<close>

datatype UIPanelType = RoomSelection | SongSearch | ProfileInput | Keyboard

text \<open>
  A mesh is an object with an identity and the \<open>userData.buttonId\<close> it carries
  (\<open>None\<close> when \<open>userData\<close> has no such field).  Geometry is not modelled: a ray is
  represented by the distance at which it meets each mesh, if it does.
\<close>

record Mesh =
  mesh_ref :: nat
  buttonId :: "string option"

type_synonym 'd ray = "Mesh \<Rightarrow> 'd option"

text \<open>
  A button is a shared mutable object: panels hold references to buttons and
  \<open>hoveredButton\<close> aliases one of them, so buttons live in a store indexed by
  reference.  The \<open>onClick\<close> closure is a value of type \<open>'a\<close> that the caller runs.
\<close>

record 'a UIButton =
  button_id :: string
  label :: string
  mesh :: Mesh
  color :: string
  onClick :: 'a
  isHovered :: bool
  isActive :: bool

record UIPanel =
  buttons :: "nat list"
  isVisible :: bool
  rootObject_visible :: bool

text \<open>
  \<open>panels\<close> is a JavaScript \<open>Map\<close>: an association list in insertion order;
  \<open>AList.update\<close> replaces the value of an existing key in place and appends a new key.
\<close>

record 'a UISystem =
  panels :: "(UIPanelType \<times> UIPanel) list"
  store :: "nat \<Rightarrow> 'a UIButton"
  next_ref :: nat
  hoveredButton :: "nat option"
  activePanel :: "UIPanelType option"

definition buttonDefault :: string where
  "buttonDefault = ''#2d2d44''"

definition buttonHover :: string where
  "buttonHover = ''#4a4a6a''"

definition buttonActive :: string where
  "buttonActive = ''#6a6a8a''"

definition createButton :: "string \<Rightarrow> string \<Rightarrow> nat \<Rightarrow> 'a \<Rightarrow> 'a UIButton" where
  "createButton i l m cb =
     \<lparr>button_id = i, label = l, mesh = \<lparr>mesh_ref = m, buttonId = Some i\<rparr>,
      color = buttonDefault, onClick = cb, isHovered = False, isActive = False\<rparr>"

definition createPanel :: "UIPanelType \<Rightarrow> 'a UISystem \<Rightarrow> 'a UISystem" where
  "createPanel t s =
     s\<lparr>panels := AList.update t
          \<lparr>buttons = [], isVisible = False, rootObject_visible = True\<rparr> (panels s)\<rparr>"

text \<open>
  \<open>addButtonToPanel\<close> pushes a button object onto the panel registered under \<open>t\<close>.
  The object gets the next free reference of the store.
\<close>

definition addButtonToPanel :: "UIPanelType \<Rightarrow> 'a UIButton \<Rightarrow> 'a UISystem \<Rightarrow> 'a UISystem" where
  "addButtonToPanel t b s =
     (case map_of (panels s) t of
        None \<Rightarrow> s
      | Some p \<Rightarrow>
          s\<lparr>panels := AList.update t (p\<lparr>buttons := buttons p @ [next_ref s]\<rparr>) (panels s),
            store := (store s)(next_ref s := b),
            next_ref := Suc (next_ref s)\<rparr>)"

definition showPanel :: "UIPanelType \<Rightarrow> 'a UISystem \<Rightarrow> 'a UISystem" where
  "showPanel t s =
     (case map_of (panels s) t of
        None \<Rightarrow> s
      | Some p \<Rightarrow>
          s\<lparr>panels := AList.update t (p\<lparr>isVisible := True, rootObject_visible := True\<rparr>) (panels s),
            activePanel := Some t\<rparr>)"

definition hidePanel :: "UIPanelType \<Rightarrow> 'a UISystem \<Rightarrow> 'a UISystem" where
  "hidePanel t s =
     (case map_of (panels s) t of
        None \<Rightarrow> s
      | Some p \<Rightarrow>
          s\<lparr>panels := AList.update t (p\<lparr>isVisible := False, rootObject_visible := False\<rparr>) (panels s),
            activePanel := (if activePanel s = Some t then None else activePanel s)\<rparr>)"

definition hideAllPanels :: "'a UISystem \<Rightarrow> 'a UISystem" where
  "hideAllPanels s = fold hidePanel (map fst (panels s)) s"

definition hasVisiblePanel :: "'a UISystem \<Rightarrow> bool" where
  "hasVisiblePanel s = list_ex (\<lambda>(t, p). isVisible p) (panels s)"

definition setButtonHover :: "nat \<Rightarrow> bool \<Rightarrow> 'a UISystem \<Rightarrow> 'a UISystem" where
  "setButtonHover a h s =
     s\<lparr>store := (store s)(a := (store s a)
            \<lparr>isHovered := h, color := (if h then buttonHover else buttonDefault)\<rparr>)\<rparr>"

text \<open>The references of the buttons of the visible panels, and of all panels, in
  registry order.\<close>

definition visibleButtons :: "'a UISystem \<Rightarrow> nat list" where
  "visibleButtons s = concat (map (\<lambda>(t, p). if isVisible p then buttons p else []) (panels s))"

definition allButtons :: "'a UISystem \<Rightarrow> nat list" where
  "allButtons s = concat (map (\<lambda>(t, p). buttons p) (panels s))"

text \<open>
  Modelled from the spec: \<open>Raycaster.intersectObjects\<close> belongs to the rendering library,
  not to this repository.  It is the standard ray-geometry intersection: the meshes the
  ray meets, nearest first (a stable sort by distance along the ray).
\<close>

definition intersectObjects :: "('d::linorder) ray \<Rightarrow> Mesh list \<Rightarrow> (Mesh \<times> 'd) list" where
  "intersectObjects ray ms =
     sort_key snd (concat (map (\<lambda>m. case ray m of None \<Rightarrow> [] | Some d \<Rightarrow> [(m, d)]) ms))"

text \<open>The reset of the previous hover state in \<open>handleRaycast\<close>.\<close>

definition unhover :: "'a UISystem \<Rightarrow> 'a UISystem" where
  "unhover s =
     (case hoveredButton s of
        None \<Rightarrow> s
      | Some h \<Rightarrow> (setButtonHover h False s)\<lparr>hoveredButton := None\<rparr>)"

definition handleRaycast :: "('d::linorder) ray \<Rightarrow> 'a UISystem \<Rightarrow> nat option \<times> 'a UISystem" where
  "handleRaycast ray s =
     (let buttonMeshes = map (\<lambda>a. mesh (store s a)) (visibleButtons s) in
      if buttonMeshes = [] then (None, s)
      else
        let intersects = intersectObjects ray buttonMeshes;
            s1 = unhover s
        in case intersects of
             [] \<Rightarrow> (None, s1)
           | (hitMesh, d) # rest \<Rightarrow>
               (case find (\<lambda>a. Some (button_id (store s1 a)) = buttonId hitMesh) (allButtons s1) of
                  None \<Rightarrow> (None, s1)
                | Some a \<Rightarrow> (Some a, (setButtonHover a True s1)\<lparr>hoveredButton := Some a\<rparr>)))"

text \<open>
  \<open>handleTriggerPress\<close> marks the hovered button active and runs its callback; the
  callback is returned so that the owner of the application state can run it.
\<close>

definition handleTriggerPress :: "'a UISystem \<Rightarrow> bool \<times> 'a option \<times> 'a UISystem" where
  "handleTriggerPress s =
     (case hoveredButton s of
        None \<Rightarrow> (False, None, s)
      | Some h \<Rightarrow>
          (True, Some (onClick (store s h)),
           s\<lparr>store := (store s)(h := (store s h)\<lparr>color := buttonActive, isActive := True\<rparr>)\<rparr>))"

definition handleTriggerRelease :: "'a UISystem \<Rightarrow> 'a UISystem" where
  "handleTriggerRelease s =
     (case hoveredButton s of
        None \<Rightarrow> s
      | Some h \<Rightarrow>
          if isActive (store s h)
          then s\<lparr>store := (store s)(h := (store s h)
                  \<lparr>isActive := False,
                   color := (if isHovered (store s h) then buttonHover else buttonDefault)\<rparr>)\<rparr>
          else s)"

definition UISystem_new :: "'a \<Rightarrow> 'a UISystem" where
  "UISystem_new cb =
     \<lparr>panels = [], store = (\<lambda>a. createButton [] [] 0 cb), next_ref = 0,
      hoveredButton = None, activePanel = None\<rparr>"

text \<open>The effect of hiding on one panel object, and the visibility flag that
  \<open>getPanel\<close> reads.\<close>

definition hide :: "UIPanel \<Rightarrow> UIPanel" where
  "hide p = p\<lparr>isVisible := False, rootObject_visible := False\<rparr>"

definition panelVisible :: "'a UISystem \<Rightarrow> UIPanelType \<Rightarrow> bool" where
  "panelVisible s t = (case map_of (panels s) t of None \<Rightarrow> False | Some p \<Rightarrow> isVisible p)"

section \<open>UIController: controller rays and the trigger edge\<close>

text \<open>
  What one frame reports about an input source.  \<open>targetRayPose\<close> is the pose of the
  target-ray space, as the ray it defines; it is \<open>None\<close> when the source has no
  target-ray space or the frame has no pose for it (the code skips the source in both
  cases).  \<open>gamepad\<close> lists the \<open>pressed\<close> flags of the gamepad buttons, \<open>gripPose\<close>
  is the position of the grip space, \<open>None\<close> when the space or its pose is missing.
\<close>

record ('d, 'v) XRInputSource =
  source_ref :: nat
  tracked_pointer :: bool
  targetRayPose :: "'d ray option"
  gamepad :: "bool list option"
  gripPose :: "'v option"

text \<open>\<open>triggerButton && triggerButton.pressed\<close> on \<open>gamepad.buttons[0]\<close>: a missing
  button is falsy.\<close>

definition isTriggerPressed :: "bool list \<Rightarrow> bool" where
  "isTriggerPressed bs = (case bs of [] \<Rightarrow> False | b # _ \<Rightarrow> b)"

text \<open>\<open>this.triggerStates.get(source) || false\<close> on a \<open>Map\<close> keyed by the source object.\<close>

definition wasTriggerPressed :: "(nat \<rightharpoonup> bool) \<Rightarrow> nat \<Rightarrow> bool" where
  "wasTriggerPressed ts r = (case ts r of None \<Rightarrow> False | Some b \<Rightarrow> b)"

text \<open>
  The loop of \<open>processControllerInput\<close> over the input sources.  It skips sources that
  are not tracked pointers or have no pose, handles the first remaining one and breaks.
  The result is the registry, the trigger map and, when a button was activated, the
  source that did it with the callback that \<open>handleTriggerPress\<close> ran.
\<close>

fun processSources ::
  "('d::linorder, 'v) XRInputSource list \<Rightarrow> 'a UISystem \<Rightarrow> (nat \<rightharpoonup> bool) \<Rightarrow>
     'a UISystem \<times> (nat \<rightharpoonup> bool) \<times> (nat \<times> 'a) option" where
  "processSources [] ui ts = (ui, ts, None)"
| "processSources (src # rest) ui ts =
     (if \<not> tracked_pointer src then processSources rest ui ts
      else case targetRayPose src of
        None \<Rightarrow> processSources rest ui ts
      | Some ray \<Rightarrow>
          (let ui1 = snd (handleRaycast ray ui) in
           case gamepad src of
             None \<Rightarrow> (ui1, ts, None)
           | Some bs \<Rightarrow>
               (let pressed = isTriggerPressed bs;
                    was = wasTriggerPressed ts (source_ref src);
                    (cb, ui2) = (if pressed \<and> \<not> was
                                 then (fst (snd (handleTriggerPress ui1)), snd (snd (handleTriggerPress ui1)))
                                 else (None, ui1));
                    ui3 = (if \<not> pressed \<and> was then handleTriggerRelease ui2 else ui2)
                in (ui3, ts(source_ref src \<mapsto> pressed),
                    map_option (\<lambda>c. (source_ref src, c)) cb))))"

definition processControllerInput ::
  "('d::linorder, 'v) XRInputSource list \<Rightarrow> 'a UISystem \<Rightarrow> (nat \<rightharpoonup> bool) \<Rightarrow>
     'a UISystem \<times> (nat \<rightharpoonup> bool) \<times> (nat \<times> 'a) option" where
  "processControllerInput inputSources ui ts =
     (if \<not> hasVisiblePanel ui then (ui, ts, None)
      else processSources inputSources ui ts)"




section \<open>MicrophoneEntity\<close>

record 'v MicrophoneEntity =
  isGrabbed :: bool
  grabbingController :: "nat option"
  position :: 'v
  spawnPosition :: 'v
  bodyColor :: string
  bodyEmissive :: string
  bodyEmissiveIntensity :: rat
  headColor :: string
  headEmissive :: string
  headEmissiveIntensity :: rat
  originalBodyColor :: string
  originalHeadColor :: string

text \<open>
  The constructor gives the two materials their colour only; \<open>emissive\<close> and
  \<open>emissiveIntensity\<close> start with the defaults of the rendering library, which is not
  part of this repository: the emissive colour black and the emissive intensity 1.
\<close>

definition MicrophoneEntity_new :: "'v \<Rightarrow> 'v MicrophoneEntity" where
  "MicrophoneEntity_new p =
     \<lparr>isGrabbed = False, grabbingController = None, position = p, spawnPosition = p,
      bodyColor = ''#2c3e50'', bodyEmissive = ''#000000'', bodyEmissiveIntensity = 1,
      headColor = ''#7f8c8d'', headEmissive = ''#000000'', headEmissiveIntensity = 1,
      originalBodyColor = ''#2c3e50'', originalHeadColor = ''#7f8c8d''\<rparr>"

definition grab :: "nat option \<Rightarrow> 'v MicrophoneEntity \<Rightarrow> 'v MicrophoneEntity" where
  "grab controller m =
     (if isGrabbed m then m
      else m\<lparr>isGrabbed := True, grabbingController := controller,
             bodyColor := ''#27ae60'', bodyEmissive := ''#27ae60'', bodyEmissiveIntensity := 3 / 10,
             headColor := ''#2ecc71'', headEmissive := ''#2ecc71'', headEmissiveIntensity := 4 / 10\<rparr>)"

definition release :: "'v MicrophoneEntity \<Rightarrow> 'v MicrophoneEntity" where
  "release m =
     (if \<not> isGrabbed m then m
      else m\<lparr>isGrabbed := False, grabbingController := None,
             bodyColor := originalBodyColor m, bodyEmissive := ''#000000'', bodyEmissiveIntensity := 0,
             headColor := originalHeadColor m, headEmissive := ''#000000'', headEmissiveIntensity := 0,
             position := spawnPosition m\<rparr>)"

definition updatePosition :: "'v \<Rightarrow> 'v MicrophoneEntity \<Rightarrow> 'v MicrophoneEntity" where
  "updatePosition p m = (if isGrabbed m then m\<lparr>position := p\<rparr> else m)"

definition isGrabbedBy :: "nat \<Rightarrow> 'v MicrophoneEntity \<Rightarrow> bool" where
  "isGrabbedBy controller m \<longleftrightarrow> isGrabbed m \<and> grabbingController m = Some controller"

text \<open>\<open>isWithinGrabRange\<close> compares a distance with \<open>grabDistance\<close>; the geometry is the
  parameter \<open>near\<close>, which says whether two positions are within grab range.\<close>

definition isWithinGrabRange :: "('v \<Rightarrow> 'v \<Rightarrow> bool) \<Rightarrow> 'v \<Rightarrow> 'v MicrophoneEntity \<Rightarrow> bool" where
  "isWithinGrabRange near p m = near (position m) p"

datatype MicCall = Grab "nat option" | Release

fun micCall :: "MicCall \<Rightarrow> 'v MicrophoneEntity \<Rightarrow> 'v MicrophoneEntity" where
  "micCall (Grab c) m = grab c m"
| "micCall Release m = release m"

text \<open>The loop of \<open>AppFlowController.processMicrophoneInput\<close>, which has a trigger map of
  its own.\<close>

fun micSources ::
  "('v \<Rightarrow> 'v \<Rightarrow> bool) \<Rightarrow> ('d, 'v) XRInputSource list \<Rightarrow> 'v MicrophoneEntity \<Rightarrow> (nat \<rightharpoonup> bool) \<Rightarrow>
     'v MicrophoneEntity \<times> (nat \<rightharpoonup> bool)" where
  "micSources near [] m ts = (m, ts)"
| "micSources near (src # rest) m ts =
     (case gamepad src of
        None \<Rightarrow> micSources near rest m ts
      | Some bs \<Rightarrow>
          (case gripPose src of
             None \<Rightarrow> micSources near rest m ts
           | Some p \<Rightarrow>
               (let pressed = isTriggerPressed bs;
                    was = wasTriggerPressed ts (source_ref src);
                    m1 = (if pressed \<and> \<not> was
                          then (if \<not> isGrabbed m \<and> isWithinGrabRange near p m
                                then grab (Some (source_ref src)) m else m)
                          else m);
                    m2 = (if \<not> pressed \<and> was
                          then (if isGrabbedBy (source_ref src) m1 then release m1 else m1)
                          else m1);
                    m3 = (if isGrabbedBy (source_ref src) m2 then updatePosition p m2 else m2)
                in micSources near rest m3 (ts(source_ref src \<mapsto> pressed)))))"

definition processMicrophoneInput ::
  "('v \<Rightarrow> 'v \<Rightarrow> bool) \<Rightarrow> ('d, 'v) XRInputSource list \<Rightarrow> 'v MicrophoneEntity option \<Rightarrow>
     (nat \<rightharpoonup> bool) \<Rightarrow> 'v MicrophoneEntity option \<times> (nat \<rightharpoonup> bool)" where
  "processMicrophoneInput near inputSources microphone ts =
     (case microphone of
        None \<Rightarrow> (None, ts)
      | Some m \<Rightarrow> (case micSources near inputSources m ts of (m', ts') \<Rightarrow> (Some m', ts')))"

section \<open>The REST controllers\<close>

text \<open>The values a request can carry in \<open>req.body\<close> and \<open>req.query\<close>.\<close>

datatype js_value =
    JUndefined
  | JNull
  | JBoolean bool
  | JNumber int
  | JString js_string
  | JArray "js_value list"
  | JObject "(string \<times> js_value) list"

text \<open>
  \<open>const { f } = v\<close>: destructuring \<open>undefined\<close> or \<open>null\<close> throws a TypeError, a
  missing property reads as \<open>undefined\<close>.  No property of a primitive or an array is
  called \<open>displayName\<close> or \<open>q\<close>, so those read as \<open>undefined\<close> too.
\<close>

definition destructure :: "string \<Rightarrow> js_value \<Rightarrow> js_value option" where
  "destructure f v =
     (case v of
        JUndefined \<Rightarrow> None
      | JNull \<Rightarrow> None
      | JObject props \<Rightarrow> (case map_of props f of None \<Rightarrow> Some JUndefined | Some x \<Rightarrow> Some x)
      | _ \<Rightarrow> Some JUndefined)"

record validation =
  valid :: bool
  error :: "js_string option"

definition validateDisplayName :: "js_value \<Rightarrow> validation" where
  "validateDisplayName name =
     (case name of
        JString s \<Rightarrow>
          (if length s < 3 \<or> length s > 20
           then \<lparr>valid = False, error = Some (js ''Display name must be 3-20 characters'')\<rparr>
           else \<lparr>valid = True, error = None\<rparr>)
      | _ \<Rightarrow> \<lparr>valid = False, error = Some (js ''Display name must be a string'')\<rparr>)"

record player_row =
  player_id :: string
  display_name :: js_string
  created_at :: nat
  last_active :: nat

record song_row =
  song_id :: string
  youtube_id :: string
  title :: js_string
  artist :: js_string
  theme :: string

text \<open>
  The database behind \<open>db.query\<close>, as far as the song search reads it: the two tables,
  and whether the pool can serve a query at all.  A query on an unreachable database
  rejects.
\<close>

record database =
  players :: "player_row list"
  songs :: "song_row list"
  reachable :: bool


text \<open>The responses the two handlers send.\<close>

record profile_json =
  json_id :: string
  json_displayName :: js_string
  json_createdAt :: nat
  json_lastActive :: nat

record song_json =
  sj_id :: string
  sj_youtubeId :: string
  sj_title :: js_string
  sj_artist :: js_string
  sj_theme :: string

datatype response =
    Profile nat profile_json
  | Songs nat "song_json list" nat
  | Failure nat js_string

fun status :: "response \<Rightarrow> nat" where
  "status (Profile c p) = c"
| "status (Songs c ss t) = c"
| "status (Failure c e) = c"

text \<open>
  \<open>profileController.create\<close>.  The new identifier and the current time come from the
  environment.  \<open>db.query\<close> belongs to the database driver and the database server, not
  to this repository, so the \<open>INSERT ... RETURNING\<close> is the parameter \<open>query\<close>: given
  the row to insert and the database, it resolves with the rows it returns (\<open>Some\<close>) or
  rejects (\<open>None\<close>), and says in either case what the database is afterwards.  The
  handler's \<open>catch\<close> answers 500 to a rejection and to the \<open>TypeError\<close> that reading
  \<open>player.id\<close> throws when no row is returned.  The result is the response and the
  database after the request.
\<close>

definition profile_create ::
  "(player_row \<Rightarrow> 'db \<Rightarrow> player_row list option \<times> 'db) \<Rightarrow> string \<Rightarrow> nat \<Rightarrow> js_value \<Rightarrow> 'db \<Rightarrow>
     response \<times> 'db" where
  "profile_create query uuid now body db =
     (case destructure ''displayName'' body of
        None \<Rightarrow> (Failure 500 (js ''Failed to create profile''), db)
      | Some name \<Rightarrow>
          (let validation = validateDisplayName name in
           if \<not> valid validation
           then (Failure 400 (the (error validation)), db)
           else
             (case name of
                JString s \<Rightarrow>
                  (case query \<lparr>player_id = uuid, display_name = s, created_at = now, last_active = now\<rparr> db of
                     (None, db') \<Rightarrow> (Failure 500 (js ''Failed to create profile''), db')
                   | (Some rows, db') \<Rightarrow>
                       (case rows of
                          [] \<Rightarrow> (Failure 500 (js ''Failed to create profile''), db')
                        | player # _ \<Rightarrow>
                            (Profile 201
                               \<lparr>json_id = player_id player, json_displayName = display_name player,
                                json_createdAt = created_at player, json_lastActive = last_active player\<rparr>,
                             db')))
              | _ \<Rightarrow> (Failure 500 (js ''Failed to create profile''), db))))"





section \<open>AppFlowController: the application flow\<close>

datatype RoomTheme = Anime | Kpop | Bollywood | Hollywood | TaylorSwift

datatype AppState =
    Initializing
  | AtProfileInput
  | AtRoomSelection
  | LoadingRoom
  | InRoom
  | AtSongSearch
  | PlayingSong
  | AtError

datatype KeyboardTarget = ProfileTarget | SongSearchTarget

text \<open>
  The closures of the program are data.  \<open>Callback\<close> lists the \<open>onClick\<close> closures
  that the panels give their buttons, \<open>RetryAction\<close> the retry thunks that
  \<open>showError\<close> receives.  The keys of the virtual keyboard are left out.
\<close>

datatype Callback =
    OpenProfileKeyboard
  | SubmitName
  | SelectRoom RoomTheme
  | OpenSearchKeyboard
  | StopSong
  | BackToRooms
  | SelectSong string

datatype RetryAction =
    RetryProfileSubmit js_string
  | RetryRoomSelect RoomTheme
  | RetryShowSongSearch

text \<open>The calls that leave the controller: to the profile service, the scene manager
  and the song catalogue.  They are logged in the order they are made.\<close>

datatype ServiceCall =
    CreateProfile js_string
  | LoadRoom RoomTheme
  | FetchSongs "RoomTheme option"
  | PlayVideo string
  | StopVideo
  | UnloadRoom

text \<open>How an awaited promise settles; a rejection carries the message of the error
  when the error is an \<open>Error\<close> object.\<close>

datatype Outcome = Resolved | Rejected "string option"

record SongResponse =
  response_id :: string
  response_youtubeId :: string
  response_label :: string

record 'v AppFlowController =
  uiSystem :: "Callback UISystem"
  uiTriggerStates :: "nat \<rightharpoonup> bool"
  triggerStates :: "nat \<rightharpoonup> bool"
  profileInputPanel :: ProfileInputPanel
  songButtons :: "nat list"
  loadingVisible :: bool
  errorVisible :: bool
  errorText :: string
  currentState :: AppState
  currentKeyboardTarget :: "KeyboardTarget option"
  lastFailedAction :: "RetryAction option"
  currentRoom :: "RoomTheme option"
  currentMicrophone :: "'v MicrophoneEntity option"
  microphonePosition :: "RoomTheme \<Rightarrow> 'v"
  calls :: "ServiceCall list"

definition setState :: "AppState \<Rightarrow> 'v AppFlowController \<Rightarrow> 'v AppFlowController" where
  "setState st a = a\<lparr>currentState := st\<rparr>"

definition showLoading :: "'v AppFlowController \<Rightarrow> 'v AppFlowController" where
  "showLoading a = a\<lparr>loadingVisible := True\<rparr>"

definition hideLoading :: "'v AppFlowController \<Rightarrow> 'v AppFlowController" where
  "hideLoading a = a\<lparr>loadingVisible := False\<rparr>"

definition showError ::
  "string \<Rightarrow> RetryAction option \<Rightarrow> 'v AppFlowController \<Rightarrow> 'v AppFlowController" where
  "showError message retryAction a =
     setState AtError (a\<lparr>lastFailedAction := retryAction, errorVisible := True, errorText := message\<rparr>)"

definition showProfileInput :: "'v AppFlowController \<Rightarrow> 'v AppFlowController" where
  "showProfileInput a =
     (let a1 = setState AtProfileInput a;
          a2 = a1\<lparr>uiSystem := hideAllPanels (uiSystem a1)\<rparr>;
          a3 = a2\<lparr>profileInputPanel := panel_reset (profileInputPanel a2)\<rparr>
      in a3\<lparr>uiSystem := showPanel ProfileInput (uiSystem a3)\<rparr>)"

definition showRoomSelection :: "'v AppFlowController \<Rightarrow> 'v AppFlowController" where
  "showRoomSelection a =
     (let a1 = setState AtRoomSelection a;
          a2 = a1\<lparr>uiSystem := hideAllPanels (uiSystem a1)\<rparr>
      in a2\<lparr>uiSystem := showPanel RoomSelection (uiSystem a2)\<rparr>)"

text \<open>
  An \<open>async\<close> method is two functions: what runs until the \<open>await\<close>, and what runs
  when the awaited promise settles (\<open>_then\<close>).

  \<open>showSongSearch\<close> awaits \<open>songSearchPanel.loadSongs\<close>, which starts a request for the
  songs of the current theme.
\<close>

definition showSongSearch :: "'v AppFlowController \<Rightarrow> 'v AppFlowController" where
  "showSongSearch a =
     (let a1 = setState AtSongSearch a;
          a2 = a1\<lparr>uiSystem := hideAllPanels (uiSystem a1)\<rparr>;
          a3 = showLoading a2
      in a3\<lparr>calls := calls a3 @ [FetchSongs (currentRoom a3)]\<rparr>)"

definition showSongSearch_then :: "Outcome \<Rightarrow> 'v AppFlowController \<Rightarrow> 'v AppFlowController" where
  "showSongSearch_then outcome a =
     (case outcome of
        Resolved \<Rightarrow>
          (let a1 = hideLoading a in a1\<lparr>uiSystem := showPanel SongSearch (uiSystem a1)\<rparr>)
      | Rejected e \<Rightarrow>
          showError ''Failed to load songs. Please try again.'' (Some RetryShowSongSearch)
            (hideLoading a))"

text \<open>
  \<open>SongSearchPanel.updateSongList\<close>, which runs when the request of \<open>loadSongs\<close> has
  settled.  It forgets the old song buttons in its own list and pushes a button for
  each of the first six songs onto the panel of the registry.
\<close>

definition createSongButton :: "SongResponse \<Rightarrow> nat \<Rightarrow> Callback UIButton" where
  "createSongButton song m =
     \<lparr>button_id = ''song-'' @ response_id song, label = response_label song,
      mesh = \<lparr>mesh_ref = m, buttonId = Some (''song-'' @ response_id song)\<rparr>,
      color = ''#2d2d44'', onClick = SelectSong (response_youtubeId song),
      isHovered = False, isActive = False\<rparr>"

definition addSongButton ::
  "SongResponse \<Rightarrow> 'v AppFlowController \<Rightarrow> 'v AppFlowController" where
  "addSongButton song a =
     a\<lparr>songButtons := songButtons a @ [next_ref (uiSystem a)],
       uiSystem := addButtonToPanel SongSearch
                     (createSongButton song (next_ref (uiSystem a))) (uiSystem a)\<rparr>"

definition updateSongList ::
  "SongResponse list \<Rightarrow> 'v AppFlowController \<Rightarrow> 'v AppFlowController" where
  "updateSongList songList a =
     (case map_of (panels (uiSystem a)) SongSearch of
        None \<Rightarrow> a
      | Some p \<Rightarrow> fold addSongButton (take 6 songList) (a\<lparr>songButtons := []\<rparr>))"

text \<open>\<open>loadSongs\<close> after its request: the songs of the response, or none when the
  request failed.\<close>

definition loadSongs_then ::
  "SongResponse list option \<Rightarrow> 'v AppFlowController \<Rightarrow> 'v AppFlowController" where
  "loadSongs_then data a =
     (case data of None \<Rightarrow> updateSongList [] a | Some songList \<Rightarrow> updateSongList songList a)"

definition openKeyboard :: "KeyboardTarget \<Rightarrow> 'v AppFlowController \<Rightarrow> 'v AppFlowController" where
  "openKeyboard target a =
     (let a1 = a\<lparr>currentKeyboardTarget := Some target\<rparr>
      in a1\<lparr>uiSystem := showPanel Keyboard (uiSystem a1)\<rparr>)"

definition handleProfileSubmit :: "js_string \<Rightarrow> 'v AppFlowController \<Rightarrow> 'v AppFlowController" where
  "handleProfileSubmit name a =
     (let a1 = showLoading a in a1\<lparr>calls := calls a1 @ [CreateProfile name]\<rparr>)"

definition handleProfileSubmit_then ::
  "js_string \<Rightarrow> Outcome \<Rightarrow> 'v AppFlowController \<Rightarrow> 'v AppFlowController" where
  "handleProfileSubmit_then name outcome a =
     (case outcome of
        Resolved \<Rightarrow> showRoomSelection (hideLoading a)
      | Rejected e \<Rightarrow>
          showError (case e of None \<Rightarrow> ''Failed to create profile'' | Some m \<Rightarrow> m)
            (Some (RetryProfileSubmit name)) (hideLoading a))"

text \<open>The scene manager: \<open>unloadCurrentRoom\<close>, and \<open>loadRoom\<close>, which has no
  \<open>await\<close> of its own and throws when the room cannot be set up.\<close>

definition unloadCurrentRoom :: "'v AppFlowController \<Rightarrow> 'v AppFlowController" where
  "unloadCurrentRoom a =
     (case currentRoom a of
        None \<Rightarrow> a
      | Some r \<Rightarrow> a\<lparr>currentMicrophone := None, currentRoom := None\<rparr>)"

definition loadRoom :: "RoomTheme \<Rightarrow> Outcome \<Rightarrow> 'v AppFlowController \<Rightarrow> 'v AppFlowController" where
  "loadRoom t outcome a =
     (let a1 = unloadCurrentRoom (a\<lparr>calls := calls a @ [LoadRoom t]\<rparr>) in
      case outcome of
        Rejected e \<Rightarrow> a1
      | Resolved \<Rightarrow>
          a1\<lparr>currentRoom := Some t,
             currentMicrophone := Some (MicrophoneEntity_new (microphonePosition a1 t))\<rparr>)"

definition handleRoomSelect ::
  "RoomTheme \<Rightarrow> Outcome \<Rightarrow> 'v AppFlowController \<Rightarrow> 'v AppFlowController" where
  "handleRoomSelect t outcome a =
     (let a1 = setState LoadingRoom a;
          a2 = a1\<lparr>uiSystem := hideAllPanels (uiSystem a1)\<rparr>;
          a3 = showLoading a2
      in loadRoom t outcome a3)"

text \<open>On success the method also starts the timer that calls \<open>showSongSearch\<close> half a
  second later.\<close>

definition handleRoomSelect_then ::
  "RoomTheme \<Rightarrow> Outcome \<Rightarrow> 'v AppFlowController \<Rightarrow> 'v AppFlowController" where
  "handleRoomSelect_then t outcome a =
     (case outcome of
        Resolved \<Rightarrow> setState InRoom (hideLoading a)
      | Rejected e \<Rightarrow>
          showError (case e of None \<Rightarrow> ''Failed to load room'' | Some m \<Rightarrow> m)
            (Some (RetryRoomSelect t)) (hideLoading a))"

definition playVideo :: "string \<Rightarrow> 'v AppFlowController \<Rightarrow> 'v AppFlowController" where
  "playVideo youtubeId a =
     (case currentRoom a of None \<Rightarrow> a | Some r \<Rightarrow> a\<lparr>calls := calls a @ [PlayVideo youtubeId]\<rparr>)"

definition stopVideo :: "'v AppFlowController \<Rightarrow> 'v AppFlowController" where
  "stopVideo a =
     (case currentRoom a of None \<Rightarrow> a | Some r \<Rightarrow> a\<lparr>calls := calls a @ [StopVideo]\<rparr>)"

definition handleSongSelect :: "string \<Rightarrow> 'v AppFlowController \<Rightarrow> 'v AppFlowController" where
  "handleSongSelect youtubeId a =
     (let a1 = setState PlayingSong a;
          a2 = a1\<lparr>uiSystem := hidePanel SongSearch (uiSystem a1)\<rparr>
      in playVideo youtubeId a2)"

definition handleStopSong :: "'v AppFlowController \<Rightarrow> 'v AppFlowController" where
  "handleStopSong a = setState InRoom (stopVideo a)"

definition handleBackToRoomSelection :: "'v AppFlowController \<Rightarrow> 'v AppFlowController" where
  "handleBackToRoomSelection a =
     (let a1 = stopVideo a;
          a2 = (case currentRoom a1 of
                  None \<Rightarrow> a1
                | Some r \<Rightarrow> unloadCurrentRoom (a1\<lparr>calls := calls a1 @ [UnloadRoom]\<rparr>))
      in showRoomSelection a2)"




text \<open>\<open>ProfileInputPanel.handleSubmit\<close> with the \<open>onSubmit\<close> callback that the
  controller registered.\<close>

definition handleSubmit :: "'v AppFlowController \<Rightarrow> 'v AppFlowController" where
  "handleSubmit a =
     (case panel_handleSubmit (profileInputPanel a) of
        (p, None) \<Rightarrow> a\<lparr>profileInputPanel := p\<rparr>
      | (p, Some name) \<Rightarrow> handleProfileSubmit name (a\<lparr>profileInputPanel := p\<rparr>))"

fun runCallback ::
  "(RoomTheme \<Rightarrow> Outcome) \<Rightarrow> Callback \<Rightarrow> 'v AppFlowController \<Rightarrow> 'v AppFlowController" where
  "runCallback roomSetup OpenProfileKeyboard a = openKeyboard ProfileTarget a"
| "runCallback roomSetup SubmitName a = handleSubmit a"
| "runCallback roomSetup (SelectRoom t) a = handleRoomSelect t (roomSetup t) a"
| "runCallback roomSetup OpenSearchKeyboard a = openKeyboard SongSearchTarget a"
| "runCallback roomSetup StopSong a = handleStopSong a"
| "runCallback roomSetup BackToRooms a = handleBackToRoomSelection a"
| "runCallback roomSetup (SelectSong youtubeId) a = handleSongSelect youtubeId a"

text \<open>
  \<open>update\<close>, called each frame.  \<open>xr\<close> holds the input sources when a session, a frame
  and a reference space exist; without them the desktop branch runs, which does nothing.
\<close>

definition update ::
  "(RoomTheme \<Rightarrow> Outcome) \<Rightarrow> ('v \<Rightarrow> 'v \<Rightarrow> bool) \<Rightarrow> ('d::linorder, 'v) XRInputSource list option \<Rightarrow>
     'v AppFlowController \<Rightarrow> 'v AppFlowController" where
  "update roomSetup near xr a =
     (if loadingVisible a then a
      else case xr of
        None \<Rightarrow> a
      | Some inputSources \<Rightarrow>
          (case processControllerInput inputSources (uiSystem a) (uiTriggerStates a) of
             (ui, ts, act) \<Rightarrow>
               (let a1 = a\<lparr>uiSystem := ui, uiTriggerStates := ts\<rparr>;
                    a2 = (case act of None \<Rightarrow> a1 | Some (r, cb) \<Rightarrow> runCallback roomSetup cb a1)
                in if currentState a2 = InRoom \<or> currentState a2 = PlayingSong
                   then (case processMicrophoneInput near inputSources
                                 (currentMicrophone a2) (triggerStates a2) of
                           (m, ts2) \<Rightarrow> a2\<lparr>currentMicrophone := m, triggerStates := ts2\<rparr>)
                   else a2)))"

text \<open>The desktop handlers of \<open>setupDesktopInput\<close>; the ray is the one through the
  mouse position.\<close>

definition onMouseClick ::
  "(RoomTheme \<Rightarrow> Outcome) \<Rightarrow> ('d::linorder) ray \<Rightarrow> 'v AppFlowController \<Rightarrow> 'v AppFlowController" where
  "onMouseClick roomSetup ray a =
     (if \<not> hasVisiblePanel (uiSystem a) then a
      else case handleRaycast ray (uiSystem a) of
        (hovered, ui) \<Rightarrow>
          (let a1 = a\<lparr>uiSystem := ui\<rparr> in
           case hovered of
             None \<Rightarrow> a1
           | Some b \<Rightarrow> runCallback roomSetup (onClick (store ui b)) a1))"

definition onMouseMove :: "('d::linorder) ray \<Rightarrow> 'v AppFlowController \<Rightarrow> 'v AppFlowController" where
  "onMouseMove ray a =
     (if \<not> hasVisiblePanel (uiSystem a) then a
      else a\<lparr>uiSystem := snd (handleRaycast ray (uiSystem a))\<rparr>)"

text \<open>
  The constructor: the registry with the panels in the order in which the panel
  classes create them, each with its buttons, all hidden.
\<close>

definition panelButton :: "string \<Rightarrow> string \<Rightarrow> nat \<Rightarrow> string \<Rightarrow> Callback \<Rightarrow> Callback UIButton" where
  "panelButton i l m c cb =
     \<lparr>button_id = i, label = l, mesh = \<lparr>mesh_ref = m, buttonId = Some i\<rparr>,
      color = c, onClick = cb, isHovered = False, isActive = False\<rparr>"

definition hideRoot :: "UIPanelType \<Rightarrow> 'a UISystem \<Rightarrow> 'a UISystem" where
  "hideRoot t s =
     (case map_of (panels s) t of
        None \<Rightarrow> s
      | Some p \<Rightarrow> s\<lparr>panels := AList.update t (p\<lparr>rootObject_visible := False\<rparr>) (panels s)\<rparr>)"

definition ProfileInputPanel_new :: "Callback UISystem \<Rightarrow> Callback UISystem" where
  "ProfileInputPanel_new s =
     (let s1 = createPanel ProfileInput s;
          s2 = addButtonToPanel ProfileInput
                 (panelButton ''name-input'' ''Enter name...'' (next_ref s1) ''#0f0f23'' OpenProfileKeyboard) s1;
          s3 = addButtonToPanel ProfileInput
                 (panelButton ''submit-name'' ''Continue'' (next_ref s2) ''#27ae60'' SubmitName) s2
      in hideRoot ProfileInput s3)"

definition themeName :: "RoomTheme \<Rightarrow> string" where
  "themeName t =
     (case t of Anime \<Rightarrow> ''anime'' | Kpop \<Rightarrow> ''kpop'' | Bollywood \<Rightarrow> ''bollywood''
      | Hollywood \<Rightarrow> ''hollywood'' | TaylorSwift \<Rightarrow> ''taylor-swift'')"

definition themeDisplayName :: "RoomTheme \<Rightarrow> string" where
  "themeDisplayName t =
     (case t of Anime \<Rightarrow> ''Anime Tokyo Lounge'' | Kpop \<Rightarrow> ''K-pop Seoul Studio''
      | Bollywood \<Rightarrow> ''Bollywood Mumbai Rooftop'' | Hollywood \<Rightarrow> ''Hollywood LA Concert Hall''
      | TaylorSwift \<Rightarrow> ''Taylor Swift Broadway Stage'')"

definition themePrimaryColor :: "RoomTheme \<Rightarrow> string" where
  "themePrimaryColor t =
     (case t of Anime \<Rightarrow> ''#ff6b9d'' | Kpop \<Rightarrow> ''#a55eea'' | Bollywood \<Rightarrow> ''#f7b731''
      | Hollywood \<Rightarrow> ''#3867d6'' | TaylorSwift \<Rightarrow> ''#e056fd'')"

text \<open>The colour of a room button is its theme's primary colour scaled by 0.6; the
  scaled colour is written as a product.\<close>

definition createRoomButton :: "RoomTheme \<Rightarrow> nat \<Rightarrow> Callback UIButton" where
  "createRoomButton t m =
     panelButton (''room-'' @ themeName t) (themeDisplayName t) m
       (''0.6*'' @ themePrimaryColor t) (SelectRoom t)"

definition addRoomButton :: "RoomTheme \<Rightarrow> Callback UISystem \<Rightarrow> Callback UISystem" where
  "addRoomButton t s = addButtonToPanel RoomSelection (createRoomButton t (next_ref s)) s"

definition RoomSelectionPanel_new :: "Callback UISystem \<Rightarrow> Callback UISystem" where
  "RoomSelectionPanel_new s =
     hideRoot RoomSelection
       (fold addRoomButton [Anime, Kpop, Bollywood, Hollywood, TaylorSwift]
          (createPanel RoomSelection s))"

definition SongSearchPanel_new :: "Callback UISystem \<Rightarrow> Callback UISystem" where
  "SongSearchPanel_new s =
     (let s1 = createPanel SongSearch s;
          s2 = addButtonToPanel SongSearch
                 (panelButton ''search-input'' ''Search...'' (next_ref s1) ''#2d2d44'' OpenSearchKeyboard) s1;
          s3 = addButtonToPanel SongSearch
                 (panelButton ''stop'' ''Stop'' (next_ref s2) ''#c0392b'' StopSong) s2;
          s4 = addButtonToPanel SongSearch
                 (panelButton ''back'' ''Back'' (next_ref s3) ''#7f8c8d'' BackToRooms) s3
      in hideRoot SongSearch s4)"

definition VirtualKeyboard_new :: "Callback UISystem \<Rightarrow> Callback UISystem" where
  "VirtualKeyboard_new s = hideRoot Keyboard (createPanel Keyboard s)"

definition AppFlowController_new :: "(RoomTheme \<Rightarrow> 'v) \<Rightarrow> 'v AppFlowController" where
  "AppFlowController_new micPositions =
     \<lparr>uiSystem = VirtualKeyboard_new (SongSearchPanel_new (RoomSelectionPanel_new
                    (ProfileInputPanel_new (UISystem_new SubmitName)))),
      uiTriggerStates = Map.empty,
      triggerStates = Map.empty,
      profileInputPanel = \<lparr>displayName = [], errorMessage = []\<rparr>,
      songButtons = [],
      loadingVisible = False,
      errorVisible = False,
      errorText = [],
      currentState = Initializing,
      currentKeyboardTarget = None,
      lastFailedAction = None,
      currentRoom = None,
      currentMicrophone = None,
      microphonePosition = micPositions,
      calls = []\<rparr>"

text \<open>\<open>start\<close> awaits the cached profile.\<close>

definition start :: "'v AppFlowController \<Rightarrow> 'v AppFlowController" where
  "start a = showLoading (setState Initializing a)"

text \<open>The promise resolves with a profile or with \<open>null\<close> (\<open>Some True\<close> and
  \<open>Some False\<close>), or rejects (\<open>None\<close>).\<close>

definition start_then :: "bool option \<Rightarrow> 'v AppFlowController \<Rightarrow> 'v AppFlowController" where
  "start_then existingProfile a =
     (case existingProfile of
        Some True \<Rightarrow> showRoomSelection (hideLoading a)
      | Some False \<Rightarrow> showProfileInput (hideLoading a)
      | None \<Rightarrow> showProfileInput (hideLoading a))"




section \<open>Concrete states used in examples\<close>

text \<open>The controller as constructed, with every microphone position at 0.\<close>

definition a0n :: "nat AppFlowController" where
  "a0n = AppFlowController_new (\<lambda>t. 0)"

text \<open>A registry with a room-selection panel that is shown.\<close>

definition roomShown :: "Callback UISystem" where
  "roomShown = showPanel RoomSelection (RoomSelectionPanel_new (UISystem_new SubmitName))"

text \<open>A microphone spawned at 0, held by controller 1 and carried to 5; and a frame
  in which controller 1 reports its trigger up at position 7.\<close>

definition heldMic :: "nat MicrophoneEntity" where
  "heldMic = updatePosition 5 (grab (Some 1) (MicrophoneEntity_new 0))"

definition triggerUp :: "(nat, nat) XRInputSource" where
  "triggerUp =
     \<lparr>source_ref = 1, tracked_pointer = True, targetRayPose = None,
      gamepad = Some [False], gripPose = Some 7\<rparr>"

text \<open>A reachable database without rows, and one with two songs.\<close>

definition emptyDb :: database where
  "emptyDb = \<lparr>players = [], songs = [], reachable = True\<rparr>"


text \<open>
  An \<open>INSERT\<close> for the examples: it rejects when the database is unreachable or the
  identifier is in the table already, and otherwise stores the row and returns it.
\<close>

definition insert_player :: "player_row \<Rightarrow> database \<Rightarrow> player_row list option \<times> database" where
  "insert_player row db =
     (if \<not> reachable db \<or> player_id row \<in> set (map player_id (players db)) then (None, db)
      else (Some [row], db\<lparr>players := players db @ [row]\<rparr>))"

text \<open>An \<open>INSERT\<close> that stores the row and then rejects: the connection is lost before
  the answer arrives.\<close>

definition insert_then_lost :: "player_row \<Rightarrow> database \<Rightarrow> player_row list option \<times> database" where
  "insert_then_lost row db = (None, db\<lparr>players := players db @ [row]\<rparr>)"




definition oneHit :: "nat \<Rightarrow> nat ray" where
  "oneHit r m = (if mesh_ref m = r then Some 2 else None)"

text \<open>The song search entered twice with the same one-song catalogue.\<close>

definition loveStory :: SongResponse where
  "loveStory = \<lparr>response_id = ''1'', response_youtubeId = ''yt1'',
                 response_label = ''Love Story - Taylor Swift''\<rparr>"

definition songSearchOnce :: "nat AppFlowController" where
  "songSearchOnce =
     showSongSearch_then Resolved (loadSongs_then (Some [loveStory]) (showSongSearch a0n))"


text \<open>A first visit: no cached profile, the name Alice typed and submitted; the request
  to the profile service is pending.\<close>

definition profileShown :: "nat AppFlowController" where
  "profileShown = start_then (Some False) (start a0n)"

definition aliceTyped :: "nat AppFlowController" where
  "aliceTyped =
     profileShown\<lparr>profileInputPanel := setDisplayName (js ''Alice'') (profileInputPanel profileShown)\<rparr>"

definition aliceSubmitted :: "nat AppFlowController" where
  "aliceSubmitted = handleSubmit aliceTyped"






definition keyboardOpen :: "nat AppFlowController" where
  "keyboardOpen = openKeyboard SongSearchTarget songSearchOnce"

text \<open>
  Two requests for Alice's profile: while the first is pending, a mouse click on the
  submit button sends a second one.  The first succeeds, the K-pop room is selected and
  set up, and the timer starts the song search, which awaits the songs.  Then the second
  request succeeds, and after it the songs arrive.
\<close>

definition submittedTwice :: "nat AppFlowController" where
  "submittedTwice = onMouseClick (\<lambda>t. Resolved) (oneHit 1) aliceSubmitted"

definition songsAwaited :: "nat AppFlowController" where
  "songsAwaited =
     showSongSearch
       (handleRoomSelect_then Kpop Resolved
          (runCallback (\<lambda>t. Resolved) (SelectRoom Kpop)
             (handleProfileSubmit_then (js ''Alice'') Resolved submittedTwice)))"

definition twoPanels :: "nat AppFlowController" where
  "twoPanels =
     showSongSearch_then Resolved
       (loadSongs_then (Some [loveStory])
          (handleProfileSubmit_then (js ''Alice'') Resolved songsAwaited))"

section \<open>Properties of the display-name validation\<close>

lemma validateName_verdict:
  "fst (validateName p) \<longleftrightarrow>
     3 \<le> length (trim (displayName p)) \<and> length (trim (displayName p)) \<le> 20"
  by (auto simp: validateName_def Let_def NAME_MIN_LENGTH_def NAME_MAX_LENGTH_def)

lemma handleSubmit_invalid:
  assumes "\<not> fst (validateName (profileInputPanel a))"
  shows "handleSubmit a = a\<lparr>profileInputPanel := snd (validateName (profileInputPanel a))\<rparr>"
    and "errorMessage (snd (validateName (profileInputPanel a))) \<noteq> []"
    and "snd (panel_handleSubmit (profileInputPanel a)) = None"
  using assms
  by (auto simp: handleSubmit_def panel_handleSubmit_def validateName_def Let_def js_def
      split: if_splits prod.splits bool.splits)

lemma handleSubmit_valid:
  assumes "fst (validateName (profileInputPanel a))"
  shows "calls (handleSubmit a) = calls a @ [CreateProfile (trim (displayName (profileInputPanel a)))]"
    and "snd (panel_handleSubmit (profileInputPanel a)) = Some (trim (displayName (profileInputPanel a)))"
  using assms
  by (auto simp: handleSubmit_def panel_handleSubmit_def validateName_def Let_def
      handleProfileSubmit_def showLoading_def
      split: if_splits prod.splits bool.splits)

lemma trim_Al: "trim (js ''Al'') = js ''Al''"
  by (simp add: trim_def js_def isWhiteSpace_def)

lemma trim_Alice: "trim (js '' Alice '') = js ''Alice''"
  by (simp add: trim_def js_def isWhiteSpace_def)

text \<open>
  C2.  A display name passes the validation of the profile-input panel exactly when its
  trimmed length is between 3 and 20.  When it does not pass, submitting sets a
  validation error message, does not invoke the submit callback, makes no call to the
  profile service and leaves the application state as it is: only the panel's error
  message changes.  When it passes, the callback receives the trimmed name and the
  profile service is called with it.
\<close>

theorem display_name_validation:
  "(fst (validateName p) \<longleftrightarrow>
      3 \<le> length (trim (displayName p)) \<and> length (trim (displayName p)) \<le> 20) \<and>
   (\<not> fst (validateName (profileInputPanel a)) \<longrightarrow>
      errorMessage (profileInputPanel (handleSubmit a)) \<noteq> [] \<and>
      snd (panel_handleSubmit (profileInputPanel a)) = None \<and>
      calls (handleSubmit a) = calls a \<and>
      currentState (handleSubmit a) = currentState a \<and>
      handleSubmit a = a\<lparr>profileInputPanel := snd (validateName (profileInputPanel a))\<rparr>) \<and>
   (fst (validateName (profileInputPanel a)) \<longrightarrow>
      snd (panel_handleSubmit (profileInputPanel a)) = Some (trim (displayName (profileInputPanel a))) \<and>
      calls (handleSubmit a) = calls a @ [CreateProfile (trim (displayName (profileInputPanel a)))])"
  using validateName_verdict[of p] handleSubmit_invalid[of a] handleSubmit_valid[of a]
  by simp

theorem display_name_validation_witness:
  "\<not> fst (validateName \<lparr>displayName = js ''Al'', errorMessage = []\<rparr>) \<and>
   calls (handleSubmit (a0n\<lparr>profileInputPanel := \<lparr>displayName = js ''Al'', errorMessage = []\<rparr>,
                              currentState := AtProfileInput\<rparr>)) = [] \<and>
   currentState (handleSubmit (a0n\<lparr>profileInputPanel := \<lparr>displayName = js ''Al'', errorMessage = []\<rparr>,
                              currentState := AtProfileInput\<rparr>)) = AtProfileInput \<and>
   fst (validateName \<lparr>displayName = js '' Alice '', errorMessage = []\<rparr>) \<and>
   calls (handleSubmit (a0n\<lparr>profileInputPanel := \<lparr>displayName = js '' Alice '', errorMessage = []\<rparr>,
                              currentState := AtProfileInput\<rparr>)) = [CreateProfile (js ''Alice'')]"
proof -
  let ?p1 = "\<lparr>displayName = js ''Al'', errorMessage = []\<rparr>"
  let ?p2 = "\<lparr>displayName = js '' Alice '', errorMessage = []\<rparr>"
  have v1: "\<not> fst (validateName ?p1)"
    by (simp add: validateName_def trim_Al NAME_MIN_LENGTH_def) (simp add: js_def)
  have v2: "fst (validateName ?p2)"
    by (simp add: validateName_def trim_Alice) (simp add: js_def NAME_MIN_LENGTH_def NAME_MAX_LENGTH_def)
  have c0: "calls a0n = []" by (simp add: a0n_def AppFlowController_new_def)
  show ?thesis
    using v1 v2 c0
      display_name_validation[of ?p1 "a0n\<lparr>profileInputPanel := ?p1, currentState := AtProfileInput\<rparr>"]
      display_name_validation[of ?p2 "a0n\<lparr>profileInputPanel := ?p2, currentState := AtProfileInput\<rparr>"]
    by (simp add: trim_Alice)
qed

section \<open>Properties of the panel registry\<close>

lemma hide_hide: "hide (hide p) = hide p"
  by (simp add: hide_def)

lemma lookup_in_keys: "map_of al k = Some v \<Longrightarrow> k \<in> fst ` set al"
  by (metis map_of_eq_None_iff option.distinct(1))

lemma hidePanel_lookup:
  "map_of (panels (hidePanel k s)) t =
     (if t = k then map_option hide (map_of (panels s) t) else map_of (panels s) t)"
  by (auto simp: hidePanel_def hide_def update_conv' split: option.splits)

lemma hidePanel_keys: "map fst (panels (hidePanel k s)) = map fst (panels s)"
  by (cases "map_of (panels s) k") (auto simp: hidePanel_def update_keys dest: lookup_in_keys)

lemma hidePanel_fixed:
  assumes "\<And>p. map_of (panels s) k = Some p \<Longrightarrow> hide p = p \<and> activePanel s \<noteq> Some k"
  shows "hidePanel k s = s"
proof (cases "map_of (panels s) k")
  case None then show ?thesis by (simp add: hidePanel_def)
next
  case (Some p)
  with assms have "hide p = p" "activePanel s \<noteq> Some k" by auto
  with Some show ?thesis
    by (simp add: hidePanel_def hide_def update_triv)
qed

lemma hidePanel_active:
  "activePanel (hidePanel k s) =
     (if activePanel s = Some k \<and> k \<in> fst ` set (panels s) then None else activePanel s)"
  by (auto simp: hidePanel_def map_of_eq_None_iff dest: lookup_in_keys split: option.splits)

lemma hidePanel_idem: "hidePanel k (hidePanel k s) = hidePanel k s"
  by (rule hidePanel_fixed) (auto simp: hidePanel_lookup hide_hide hidePanel_active dest: lookup_in_keys)

lemma fold_hidePanel_lookup:
  "map_of (panels (fold hidePanel ks s)) t =
     (if t \<in> set ks then map_option hide (map_of (panels s) t) else map_of (panels s) t)"
  by (induction ks arbitrary: s) (auto simp: hidePanel_lookup hide_hide option.map_comp comp_def)

lemma fold_hidePanel_keys: "map fst (panels (fold hidePanel ks s)) = map fst (panels s)"
  by (induction ks arbitrary: s) (auto simp: hidePanel_keys)

lemma fold_hidePanel_active:
  "activePanel (fold hidePanel ks s) =
     (if \<exists>k \<in> set ks. activePanel s = Some k \<and> k \<in> fst ` set (panels s) then None else activePanel s)"
proof (induction ks arbitrary: s)
  case Nil then show ?case by simp
next
  case (Cons k ks)
  have keys: "fst ` set (panels (hidePanel k s)) = fst ` set (panels s)"
    using hidePanel_keys[of k s] by (metis list.set_map)
  show ?case by (auto simp: Cons.IH hidePanel_active keys)
qed

lemma fold_hidePanel_fixed:
  assumes "\<And>k p. k \<in> set ks \<Longrightarrow> map_of (panels s) k = Some p \<Longrightarrow> hide p = p \<and> activePanel s \<noteq> Some k"
  shows "fold hidePanel ks s = s"
  using assms
proof (induction ks)
  case Nil then show ?case by simp
next
  case (Cons k ks)
  have "hidePanel k s = s" by (rule hidePanel_fixed) (use Cons.prems in auto)
  moreover have "fold hidePanel ks s = s" by (rule Cons.IH) (use Cons.prems in auto)
  ultimately show ?case by simp
qed

lemma hideAllPanels_lookup:
  "map_of (panels (hideAllPanels s)) t = map_option hide (map_of (panels s) t)"
  unfolding hideAllPanels_def fold_hidePanel_lookup
  by (auto simp: map_of_eq_None_iff[symmetric])

lemma hideAllPanels_idem: "hideAllPanels (hideAllPanels s) = hideAllPanels s"
proof -
  let ?s = "hideAllPanels s"
  have "fold hidePanel (map fst (panels ?s)) ?s = ?s"
  proof (rule fold_hidePanel_fixed)
    fix k p assume k: "k \<in> set (map fst (panels ?s))" and p: "map_of (panels ?s) k = Some p"
    from p have "hide p = p" by (auto simp: hideAllPanels_lookup hide_hide)
    moreover have "activePanel ?s \<noteq> Some k"
      using k unfolding hideAllPanels_def fold_hidePanel_active fold_hidePanel_keys
      by (auto split: if_splits)
    ultimately show "hide p = p \<and> activePanel ?s \<noteq> Some k" by simp
  qed
  then show ?thesis by (simp add: hideAllPanels_def[of ?s])
qed

lemma hasVisiblePanel_iff:
  assumes "distinct (map fst (panels s))"
  shows "hasVisiblePanel s \<longleftrightarrow> (\<exists>t. panelVisible s t)"
proof
  assume "hasVisiblePanel s"
  then obtain t p where "(t, p) \<in> set (panels s)" "isVisible p"
    by (auto simp: hasVisiblePanel_def list_ex_iff)
  with assms have "map_of (panels s) t = Some p" by simp
  with \<open>isVisible p\<close> show "\<exists>t. panelVisible s t" by (auto simp: panelVisible_def intro!: exI[of _ t])
next
  assume "\<exists>t. panelVisible s t"
  then obtain t p where "map_of (panels s) t = Some p" "isVisible p"
    by (auto simp: panelVisible_def split: option.splits)
  then show "hasVisiblePanel s"
    by (auto simp: hasVisiblePanel_def list_ex_iff dest!: map_of_SomeD)
qed

lemma hideAllPanels_keys: "map fst (panels (hideAllPanels s)) = map fst (panels s)"
  by (simp add: hideAllPanels_def fold_hidePanel_keys)

lemma hideAllPanels_not_visible: "\<not> panelVisible (hideAllPanels s) t"
  by (auto simp: panelVisible_def hideAllPanels_lookup hide_def split: option.splits)

lemma roomShown_panels:
  "panels roomShown =
     [(RoomSelection, \<lparr>buttons = [0, 1, 2, 3, 4], isVisible = True, rootObject_visible = True\<rparr>)]"
  by (simp add: roomShown_def showPanel_def RoomSelectionPanel_new_def UISystem_new_def
      createPanel_def addButtonToPanel_def hideRoot_def addRoomButton_def)

lemma update_distinct_map:
  "distinct (map fst al) \<Longrightarrow> map_of al k = Some p \<Longrightarrow>
   AList.update k (f p) al = map (\<lambda>(k', q). (k', if k' = k then f q else q)) al"
proof (induction al)
  case Nil then show ?case by simp
next
  case (Cons x al)
  obtain k' q where x: "x = (k', q)" by (cases x)
  show ?case
  proof (cases "k' = k")
    case True
    with Cons.prems x have "q = p" by simp
    have "k \<notin> fst ` set al" using Cons.prems(1) x True by simp
    then have "map (\<lambda>(k', q). (k', if k' = k then f q else q)) al = al"
      by (induction al) auto
    with True x \<open>q = p\<close> show ?thesis by simp
  next
    case False
    with Cons x show ?thesis by simp
  qed
qed

lemma map_unregistered:
  "map_of al k = None \<Longrightarrow> map (\<lambda>(k', q). (k', if k' = k then f q else q)) al = al"
  by (induction al) (auto split: if_splits)

lemma hidePanel_frame:
  "store (hidePanel t s) = store s" "next_ref (hidePanel t s) = next_ref s"
  "hoveredButton (hidePanel t s) = hoveredButton s"
  by (cases "map_of (panels s) t"; simp add: hidePanel_def)+

lemma fold_hidePanel_frame:
  "store (fold hidePanel ks s) = store s \<and> next_ref (fold hidePanel ks s) = next_ref s \<and>
   hoveredButton (fold hidePanel ks s) = hoveredButton s"
  by (induction ks arbitrary: s) (simp_all add: hidePanel_frame)

lemma hidePanel_panels:
  "distinct (map fst (panels s)) \<Longrightarrow>
   panels (hidePanel t s) = map (\<lambda>(k, p). (k, if k = t then hide p else p)) (panels s)"
proof (cases "map_of (panels s) t")
  case None
  then show ?thesis by (simp add: hidePanel_def map_unregistered)
next
  case (Some p)
  assume "distinct (map fst (panels s))"
  from update_distinct_map[OF this Some, of hide] Some show ?thesis
    by (simp add: hidePanel_def hide_def)
qed

lemma fold_hidePanel_panels:
  "distinct (map fst (panels s)) \<Longrightarrow>
   panels (fold hidePanel ks s) = map (\<lambda>(k, p). (k, if k \<in> set ks then hide p else p)) (panels s)"
proof (induction ks arbitrary: s)
  case Nil then show ?case by simp
next
  case (Cons k ks)
  have d: "distinct (map fst (panels (hidePanel k s)))"
    using Cons.prems by (simp add: hidePanel_keys)
  show ?case
    unfolding fold_simps Cons.IH[OF d] hidePanel_panels[OF Cons.prems]
    by (auto simp: hide_hide)
qed

lemma hideAllPanels_panels:
  "distinct (map fst (panels s)) \<Longrightarrow>
   panels (hideAllPanels s) = map (\<lambda>(k, p). (k, hide p)) (panels s)"
  unfolding hideAllPanels_def by (simp add: fold_hidePanel_panels) force

lemma hideAllPanels_active:
  "activePanel (hideAllPanels s) =
     (if \<exists>k. activePanel s = Some k \<and> k \<in> fst ` set (panels s) then None else activePanel s)"
  unfolding hideAllPanels_def fold_hidePanel_active by auto

text \<open>
  C9.  Hiding is idempotent.  Hiding a panel twice gives the state that hiding it once
  gives, and hiding all panels twice gives the state that hiding them once gives.
  Neither function has a failing branch: a panel type that is not registered leaves the
  state unchanged.

  What hiding does is pinned down field by field.  The registry keeps its keys in their
  order.  \<open>hidePanel\<close> gives the panel it is asked to hide, when it is registered, the
  flags \<open>isVisible = False\<close> and \<open>rootObject.visible = False\<close>, keeps its buttons, and
  leaves every other panel as it was; \<open>hideAllPanels\<close> does this to every registered
  panel.  The buttons in the store, the next reference and the hovered button are
  untouched, and the active panel is reset exactly when it was a panel that got hidden.
  So afterwards no panel is flagged visible, whatever was visible before: neither by
  the flag that \<open>getPanel\<close> reads nor, for a registry whose keys are distinct as the
  keys of a \<open>Map\<close> are, by \<open>hasVisiblePanel\<close>; for such a registry the whole list of
  panels after hiding is the list before with the flags of the hidden panels cleared.
\<close>

theorem hide_idempotent:
  "hidePanel t (hidePanel t s) = hidePanel t s \<and>
   \<not> panelVisible (hidePanel t s) t \<and>
   hideAllPanels (hideAllPanels s) = hideAllPanels s \<and>
   (\<forall>u. \<not> panelVisible (hideAllPanels s) u) \<and>
   (distinct (map fst (panels s)) \<longrightarrow> \<not> hasVisiblePanel (hideAllPanels s)) \<and>
   map fst (panels (hidePanel t s)) = map fst (panels s) \<and>
   map fst (panels (hideAllPanels s)) = map fst (panels s) \<and>
   map_of (panels (hidePanel t s)) u =
     (if u = t
      then map_option (\<lambda>p. p\<lparr>isVisible := False, rootObject_visible := False\<rparr>) (map_of (panels s) u)
      else map_of (panels s) u) \<and>
   map_of (panels (hideAllPanels s)) u =
     map_option (\<lambda>p. p\<lparr>isVisible := False, rootObject_visible := False\<rparr>) (map_of (panels s) u) \<and>
   store (hidePanel t s) = store s \<and> next_ref (hidePanel t s) = next_ref s \<and>
   hoveredButton (hidePanel t s) = hoveredButton s \<and>
   store (hideAllPanels s) = store s \<and> next_ref (hideAllPanels s) = next_ref s \<and>
   hoveredButton (hideAllPanels s) = hoveredButton s \<and>
   activePanel (hidePanel t s) =
     (if activePanel s = Some t \<and> t \<in> fst ` set (panels s) then None else activePanel s) \<and>
   activePanel (hideAllPanels s) =
     (if \<exists>k. activePanel s = Some k \<and> k \<in> fst ` set (panels s) then None else activePanel s) \<and>
   (distinct (map fst (panels s)) \<longrightarrow>
      panels (hidePanel t s) =
        map (\<lambda>(k, p). (k, if k = t then p\<lparr>isVisible := False, rootObject_visible := False\<rparr> else p))
          (panels s) \<and>
      panels (hideAllPanels s) =
        map (\<lambda>(k, p). (k, p\<lparr>isVisible := False, rootObject_visible := False\<rparr>)) (panels s))"
proof -
  have h: "hide = (\<lambda>p. p\<lparr>isVisible := False, rootObject_visible := False\<rparr>)"
    by (rule ext) (simp add: hide_def)
  have 1: "\<not> panelVisible (hidePanel t s) t"
    by (auto simp: panelVisible_def hidePanel_lookup hide_def split: option.splits)
  have 2: "distinct (map fst (panels s)) \<longrightarrow> \<not> hasVisiblePanel (hideAllPanels s)"
    by (simp add: hasVisiblePanel_iff hideAllPanels_keys hideAllPanels_not_visible)
  have 3: "map_of (panels (hidePanel t s)) u =
     (if u = t
      then map_option (\<lambda>p. p\<lparr>isVisible := False, rootObject_visible := False\<rparr>) (map_of (panels s) u)
      else map_of (panels s) u)"
    unfolding hidePanel_lookup h by (rule refl)
  have 4: "map_of (panels (hideAllPanels s)) u =
     map_option (\<lambda>p. p\<lparr>isVisible := False, rootObject_visible := False\<rparr>) (map_of (panels s) u)"
    unfolding hideAllPanels_lookup h by (rule refl)
  have 5: "store (hideAllPanels s) = store s \<and> next_ref (hideAllPanels s) = next_ref s \<and>
   hoveredButton (hideAllPanels s) = hoveredButton s"
    unfolding hideAllPanels_def by (rule fold_hidePanel_frame)
  have 6: "distinct (map fst (panels s)) \<longrightarrow>
      panels (hidePanel t s) =
        map (\<lambda>(k, p). (k, if k = t then p\<lparr>isVisible := False, rootObject_visible := False\<rparr> else p))
          (panels s) \<and>
      panels (hideAllPanels s) =
        map (\<lambda>(k, p). (k, p\<lparr>isVisible := False, rootObject_visible := False\<rparr>)) (panels s)"
    using hidePanel_panels[of s t] hideAllPanels_panels[of s] unfolding h by blast
  show ?thesis
    using 1 2 3 4 5 6 hidePanel_idem[of t s] hideAllPanels_idem[of s] hideAllPanels_not_visible[of s]
      hidePanel_keys[of t s] hideAllPanels_keys[of s] hidePanel_frame[of t s]
      hidePanel_active[of t s] hideAllPanels_active[of s]
    by blast
qed

theorem hide_idempotent_witness:
  "distinct (map fst (panels roomShown)) \<and> hasVisiblePanel roomShown \<and>
   \<not> hasVisiblePanel (hideAllPanels roomShown) \<and>
   hideAllPanels (hideAllPanels roomShown) = hideAllPanels roomShown \<and>
   \<not> panelVisible (hidePanel RoomSelection roomShown) RoomSelection \<and>
   panels (hidePanel RoomSelection roomShown) =
     [(RoomSelection, \<lparr>buttons = [0, 1, 2, 3, 4], isVisible = False, rootObject_visible = False\<rparr>)] \<and>
   panels (hideAllPanels roomShown) =
     [(RoomSelection, \<lparr>buttons = [0, 1, 2, 3, 4], isVisible = False, rootObject_visible = False\<rparr>)]"
  using hide_idempotent[of RoomSelection roomShown RoomSelection]
  by (simp add: roomShown_panels hasVisiblePanel_def)

section \<open>Properties of the microphone\<close>

lemma grab_held: "isGrabbed m \<Longrightarrow> grab c m = m"
  by (simp add: grab_def)

lemma release_free: "\<not> isGrabbed m \<Longrightarrow> release m = m"
  by (simp add: release_def)

lemma calls_without_release:
  "isGrabbed m \<Longrightarrow> Release \<notin> set cs \<Longrightarrow> fold micCall cs m = m"
proof (induction cs)
  case Nil then show ?case by simp
next
  case (Cons c cs)
  then show ?case by (cases c) (auto simp: grab_held)
qed

lemma micCall_spawn:
  "spawnPosition (micCall c m) = spawnPosition m \<and>
   originalBodyColor (micCall c m) = originalBodyColor m \<and>
   originalHeadColor (micCall c m) = originalHeadColor m"
  by (cases c) (auto simp: grab_def release_def)

lemma calls_spawn:
  "spawnPosition (fold micCall cs m) = spawnPosition m \<and>
   originalBodyColor (fold micCall cs m) = originalBodyColor m \<and>
   originalHeadColor (fold micCall cs m) = originalHeadColor m"
  by (induction cs arbitrary: m) (auto simp: micCall_spawn)

lemma micCall_holder:
  "isGrabbed m \<Longrightarrow> isGrabbed (micCall c m) \<Longrightarrow>
   grabbingController (micCall c m) = grabbingController m"
  by (cases c) (auto simp: grab_def release_def)

text \<open>One source of the microphone loop keeps the holder unless the holder's own
  trigger is up.\<close>

lemma micSources_keeps:
  assumes "isGrabbedBy c m"
    and "\<not> isGrabbedBy c (fst (micSources near srcs m ts))"
  shows "\<exists>src \<in> set srcs. source_ref src = c \<and>
           (\<exists>bs. gamepad src = Some bs \<and> \<not> isTriggerPressed bs) \<and> gripPose src \<noteq> None"
  using assms
proof (induction srcs arbitrary: m ts)
  case Nil then show ?case by simp
next
  case (Cons src rest)
  show ?case
  proof (cases "gamepad src")
    case None
    with Cons show ?thesis by auto
  next
    case (Some bs)
    show ?thesis
    proof (cases "gripPose src")
      case None
      with Some Cons show ?thesis by auto
    next
      case (Some p)
      note g = \<open>gamepad src = Some bs\<close>
      let ?pressed = "isTriggerPressed bs"
      let ?was = "wasTriggerPressed ts (source_ref src)"
      let ?m2 = "(if \<not> ?pressed \<and> ?was
                  then (if isGrabbedBy (source_ref src) m then release m else m) else m)"
      let ?m3 = "(if isGrabbedBy (source_ref src) ?m2 then updatePosition p ?m2 else ?m2)"
      have grabbed: "isGrabbed m" using Cons.prems(1) by (simp add: isGrabbedBy_def)
      have step: "micSources near (src # rest) m ts =
                    micSources near rest ?m3 (ts(source_ref src \<mapsto> ?pressed))"
        using g Some grabbed by (simp add: Let_def)
      show ?thesis
      proof (cases "source_ref src = c \<and> \<not> ?pressed")
        case True
        with g Some show ?thesis by auto
      next
        case False
        then have "?m2 = m" using Cons.prems(1) by (auto simp: isGrabbedBy_def)
        then have "isGrabbedBy c ?m3"
          using Cons.prems(1) by (auto simp: isGrabbedBy_def updatePosition_def)
        moreover have "\<not> isGrabbedBy c (fst (micSources near rest ?m3 (ts(source_ref src \<mapsto> ?pressed))))"
          using Cons.prems(2) step by simp
        ultimately have "\<exists>src \<in> set rest. source_ref src = c \<and>
           (\<exists>bs. gamepad src = Some bs \<and> \<not> isTriggerPressed bs) \<and> gripPose src \<noteq> None"
          by (rule Cons.IH)
        then show ?thesis by auto
      qed
    qed
  qed
qed

lemma heldMic_eq:
  "heldMic = \<lparr>isGrabbed = True, grabbingController = Some 1, position = 5, spawnPosition = 0,
      bodyColor = ''#27ae60'', bodyEmissive = ''#27ae60'', bodyEmissiveIntensity = 3 / 10,
      headColor = ''#2ecc71'', headEmissive = ''#2ecc71'', headEmissiveIntensity = 4 / 10,
      originalBodyColor = ''#2c3e50'', originalHeadColor = ''#7f8c8d''\<rparr>"
  by (simp add: heldMic_def updatePosition_def grab_def MicrophoneEntity_new_def)

lemma heldMic_released:
  "fst (micSources (\<lambda>p q. True) [triggerUp] heldMic [1 \<mapsto> True]) = release heldMic"
  by (simp add: heldMic_eq triggerUp_def isTriggerPressed_def wasTriggerPressed_def
      isGrabbedBy_def release_def updatePosition_def Let_def)

lemma new_then_calls:
  "spawnPosition (fold micCall cs (MicrophoneEntity_new p)) = p \<and>
   originalBodyColor (fold micCall cs (MicrophoneEntity_new p)) = bodyColor (MicrophoneEntity_new p) \<and>
   originalHeadColor (fold micCall cs (MicrophoneEntity_new p)) = headColor (MicrophoneEntity_new p)"
  using calls_spawn[of cs "MicrophoneEntity_new p"] by (simp add: MicrophoneEntity_new_def)

lemma release_held:
  "isGrabbed m \<Longrightarrow>
   release m =
     m\<lparr>isGrabbed := False, grabbingController := None,
       bodyColor := originalBodyColor m, bodyEmissive := ''#000000'', bodyEmissiveIntensity := 0,
       headColor := originalHeadColor m, headEmissive := ''#000000'', headEmissiveIntensity := 0,
       position := spawnPosition m\<rparr>"
  by (simp add: release_def)

text \<open>
  C10.  Grabbing is exclusive and releasing restores.  \<open>grab\<close> on a held microphone
  changes nothing, so a run of calls without a \<open>release\<close> leaves a held microphone as
  it is, with the same holder, and no two controllers hold it at once; \<open>grab\<close> on a free
  microphone makes the given controller its holder and leaves the microphone where it
  is.  \<open>release\<close> on a free microphone changes nothing.  \<open>release\<close> on a held
  microphone frees it, puts it at its recorded
  spawn position, gives body and head their original colours, and resets the glow of
  the grabbed state: the emissive colour of both materials is black and their emissive
  intensity is 0.  No run of calls changes the recorded spawn position or the recorded
  original colours, so a microphone that was constructed at a position and has been
  through any run of calls is, after an effective \<open>release\<close>, at that position with the
  colour and the emissive colour it was constructed with.  In the input loop the holder
  loses the microphone only when the holder itself is among the sources of the frame,
  with a grip pose and its trigger up.
\<close>

theorem microphone_grab_exclusive:
  "(isGrabbed m \<longrightarrow> grab c m = m) \<and>
   (\<not> isGrabbed m \<longrightarrow> release m = m \<and> isGrabbedBy d (grab (Some d) m) \<and>
      isGrabbed (grab c m) \<and> grabbingController (grab c m) = c \<and>
      position (grab c m) = position m) \<and>
   (isGrabbedBy d m \<and> isGrabbedBy e m \<longrightarrow> d = e) \<and>
   (isGrabbed m \<and> Release \<notin> set cs \<longrightarrow> fold micCall cs m = m) \<and>
   (isGrabbed m \<and> isGrabbed (micCall k m) \<longrightarrow>
      grabbingController (micCall k m) = grabbingController m) \<and>
   (isGrabbed m \<longrightarrow>
      \<not> isGrabbed (release m) \<and> grabbingController (release m) = None \<and>
      position (release m) = spawnPosition m \<and>
      bodyColor (release m) = originalBodyColor m \<and>
      headColor (release m) = originalHeadColor m \<and>
      bodyEmissive (release m) = ''#000000'' \<and> bodyEmissiveIntensity (release m) = 0 \<and>
      headEmissive (release m) = ''#000000'' \<and> headEmissiveIntensity (release m) = 0 \<and>
      spawnPosition (release m) = spawnPosition m \<and>
      originalBodyColor (release m) = originalBodyColor m \<and>
      originalHeadColor (release m) = originalHeadColor m) \<and>
   spawnPosition (fold micCall cs m) = spawnPosition m \<and>
   originalBodyColor (fold micCall cs m) = originalBodyColor m \<and>
   originalHeadColor (fold micCall cs m) = originalHeadColor m \<and>
   (isGrabbed (fold micCall cs (MicrophoneEntity_new p)) \<longrightarrow>
      position (release (fold micCall cs (MicrophoneEntity_new p))) = p \<and>
      bodyColor (release (fold micCall cs (MicrophoneEntity_new p))) = bodyColor (MicrophoneEntity_new p) \<and>
      headColor (release (fold micCall cs (MicrophoneEntity_new p))) = headColor (MicrophoneEntity_new p) \<and>
      bodyEmissive (release (fold micCall cs (MicrophoneEntity_new p))) =
        bodyEmissive (MicrophoneEntity_new p) \<and>
      headEmissive (release (fold micCall cs (MicrophoneEntity_new p))) =
        headEmissive (MicrophoneEntity_new p)) \<and>
   (isGrabbedBy d m \<and> \<not> isGrabbedBy d (fst (micSources near srcs m ts)) \<longrightarrow>
      (\<exists>src \<in> set srcs. source_ref src = d \<and>
         (\<exists>bs. gamepad src = Some bs \<and> \<not> isTriggerPressed bs) \<and> gripPose src \<noteq> None))"
proof -
  have r: "isGrabbed m \<longrightarrow>
      \<not> isGrabbed (release m) \<and> grabbingController (release m) = None \<and>
      position (release m) = spawnPosition m \<and>
      bodyColor (release m) = originalBodyColor m \<and>
      headColor (release m) = originalHeadColor m \<and>
      bodyEmissive (release m) = ''#000000'' \<and> bodyEmissiveIntensity (release m) = 0 \<and>
      headEmissive (release m) = ''#000000'' \<and> headEmissiveIntensity (release m) = 0 \<and>
      spawnPosition (release m) = spawnPosition m \<and>
      originalBodyColor (release m) = originalBodyColor m \<and>
      originalHeadColor (release m) = originalHeadColor m"
    by (simp add: release_def)
  have n: "isGrabbed (fold micCall cs (MicrophoneEntity_new p)) \<longrightarrow>
      position (release (fold micCall cs (MicrophoneEntity_new p))) = p \<and>
      bodyColor (release (fold micCall cs (MicrophoneEntity_new p))) = bodyColor (MicrophoneEntity_new p) \<and>
      headColor (release (fold micCall cs (MicrophoneEntity_new p))) = headColor (MicrophoneEntity_new p) \<and>
      bodyEmissive (release (fold micCall cs (MicrophoneEntity_new p))) =
        bodyEmissive (MicrophoneEntity_new p) \<and>
      headEmissive (release (fold micCall cs (MicrophoneEntity_new p))) =
        headEmissive (MicrophoneEntity_new p)"
  proof
    let ?m = "fold micCall cs (MicrophoneEntity_new p)"
    assume g: "isGrabbed ?m"
    have e: "bodyEmissive (MicrophoneEntity_new p) = ''#000000''"
      "headEmissive (MicrophoneEntity_new p) = ''#000000''"
      by (simp_all add: MicrophoneEntity_new_def)
    show "position (release ?m) = p \<and>
      bodyColor (release ?m) = bodyColor (MicrophoneEntity_new p) \<and>
      headColor (release ?m) = headColor (MicrophoneEntity_new p) \<and>
      bodyEmissive (release ?m) = bodyEmissive (MicrophoneEntity_new p) \<and>
      headEmissive (release ?m) = headEmissive (MicrophoneEntity_new p)"
      unfolding release_held[OF g] e using new_then_calls[of cs p] by simp
  qed
  have a: "\<not> isGrabbed m \<longrightarrow> isGrabbedBy d (grab (Some d) m) \<and>
      isGrabbed (grab c m) \<and> grabbingController (grab c m) = c \<and>
      position (grab c m) = position m"
    by (simp add: grab_def isGrabbedBy_def)
  have b: "isGrabbedBy d m \<and> isGrabbedBy e m \<longrightarrow> d = e"
    by (auto simp: isGrabbedBy_def)
  show ?thesis
    using r n a b grab_held[of m c] release_free[of m] calls_without_release[of m cs]
      micCall_holder[of m k] calls_spawn[of cs m] micSources_keeps[of d m near srcs ts]
    by blast
qed

theorem microphone_grab_exclusive_witness:
  "isGrabbed heldMic \<and> isGrabbedBy 1 heldMic \<and> position heldMic = 5 \<and>
   bodyEmissive heldMic = ''#27ae60'' \<and> headEmissive heldMic = ''#2ecc71'' \<and>
   grab (Some 2) heldMic = heldMic \<and>
   fold micCall [Grab (Some 2), Grab None] heldMic = heldMic \<and>
   \<not> isGrabbed (release heldMic) \<and>
   position (release heldMic) = 0 \<and> bodyColor (release heldMic) = ''#2c3e50'' \<and>
   headColor (release heldMic) = ''#7f8c8d'' \<and>
   bodyEmissive (release heldMic) = ''#000000'' \<and> bodyEmissiveIntensity (release heldMic) = 0 \<and>
   headEmissive (release heldMic) = ''#000000'' \<and> headEmissiveIntensity (release heldMic) = 0 \<and>
   release (release heldMic) = release heldMic \<and>
   isGrabbedBy 2 (grab (Some 2) (release heldMic)) \<and>
   isGrabbed (fold micCall [Grab (Some 1)] (MicrophoneEntity_new (0::nat))) \<and>
   position (release (fold micCall [Grab (Some 1)] (MicrophoneEntity_new (0::nat)))) = 0 \<and>
   bodyEmissive (release (fold micCall [Grab (Some 1)] (MicrophoneEntity_new (0::nat)))) = ''#000000'' \<and>
   \<not> isGrabbedBy 1 (fst (micSources (\<lambda>p q. True) [triggerUp] heldMic [1 \<mapsto> True])) \<and>
   (\<exists>src. src = triggerUp \<and> source_ref src = 1 \<and>
      (\<exists>bs. gamepad src = Some bs \<and> \<not> isTriggerPressed bs) \<and> gripPose src \<noteq> None)"
proof -
  have h: "isGrabbed heldMic" "isGrabbedBy 1 heldMic" "position heldMic = 5"
    "spawnPosition heldMic = 0" "originalBodyColor heldMic = ''#2c3e50''"
    "originalHeadColor heldMic = ''#7f8c8d''"
    "bodyEmissive heldMic = ''#27ae60''" "headEmissive heldMic = ''#2ecc71''"
    by (simp_all add: heldMic_eq isGrabbedBy_def)
  have r: "\<not> isGrabbed (release heldMic)" by (simp add: release_def h)
  have n: "\<not> isGrabbedBy 1 (fst (micSources (\<lambda>p q. True) [triggerUp] heldMic [1 \<mapsto> True]))"
    using r unfolding heldMic_released isGrabbedBy_def by blast
  have s0: "Release \<notin> set [Grab (Some 2), Grab None]" by simp
  have f: "isGrabbed (fold micCall [Grab (Some 1)] (MicrophoneEntity_new (0::nat)))"
    "bodyEmissive (MicrophoneEntity_new (0::nat)) = ''#000000''"
    by (simp_all add: grab_def MicrophoneEntity_new_def)
  note t1 = microphone_grab_exclusive[of heldMic "Some 2" 1 1 "[Grab (Some 2), Grab None]" "Grab None"
        0 "\<lambda>p q. True" "[triggerUp]" "[1 \<mapsto> True]"]
  note t2 = microphone_grab_exclusive[of "release heldMic" "Some 2" 2 2 "[]" "Release"
        0 "\<lambda>p q. True" "[]" "Map.empty"]
  note t3 = microphone_grab_exclusive[of heldMic "Some 2" 1 1 "[Grab (Some 1)]" "Grab None"
        0 "\<lambda>p q. True" "[triggerUp]" "[1 \<mapsto> True]"]
  have g: "grab (Some 2) heldMic = heldMic"
    "fold micCall [Grab (Some 2), Grab None] heldMic = heldMic"
    using t1 h(1) s0 by blast+
  have p: "position (release heldMic) = 0" "bodyColor (release heldMic) = ''#2c3e50''"
    "headColor (release heldMic) = ''#7f8c8d''"
    using t1 h by metis+
  have p2: "bodyEmissive (release heldMic) = ''#000000''" "bodyEmissiveIntensity (release heldMic) = 0"
    "headEmissive (release heldMic) = ''#000000''" "headEmissiveIntensity (release heldMic) = 0"
    using t1 h(1) by blast+
  have q: "release (release heldMic) = release heldMic"
    "isGrabbedBy 2 (grab (Some 2) (release heldMic))"
    using t2 r by blast+
  have c: "position (release (fold micCall [Grab (Some 1)] (MicrophoneEntity_new (0::nat)))) = 0"
    "bodyEmissive (release (fold micCall [Grab (Some 1)] (MicrophoneEntity_new (0::nat)))) = ''#000000''"
    using t3 f by metis+
  have "\<exists>src \<in> set [triggerUp]. source_ref src = 1 \<and>
      (\<exists>bs. gamepad src = Some bs \<and> \<not> isTriggerPressed bs) \<and> gripPose src \<noteq> None"
    using t1 h(2) n by blast
  then have e: "\<exists>src. src = triggerUp \<and> source_ref src = 1 \<and>
      (\<exists>bs. gamepad src = Some bs \<and> \<not> isTriggerPressed bs) \<and> gripPose src \<noteq> None"
    by auto
  show ?thesis
    using h(1-3) h(7,8) g r p p2 q f(1) c n e by blast
qed

section \<open>Properties of the REST controllers\<close>

lemma validateDisplayName_valid:
  "valid (validateDisplayName v) \<longleftrightarrow> (\<exists>s. v = JString s \<and> 3 \<le> length s \<and> length s \<le> 20)"
  by (cases v) (auto simp: validateDisplayName_def)

lemma validateDisplayName_error:
  "\<not> valid (validateDisplayName v) \<Longrightarrow> error (validateDisplayName v) \<noteq> None"
  by (cases v) (auto simp: validateDisplayName_def split: if_splits)

lemma profile_create_invalid:
  assumes "destructure ''displayName'' body = Some v" and "\<not> valid (validateDisplayName v)"
  shows "profile_create query uuid now body db = (Failure 400 (the (error (validateDisplayName v))), db)"
  using assms by (simp add: profile_create_def)

lemma profile_create_valid:
  assumes "destructure ''displayName'' body = Some (JString s)"
    and "3 \<le> length s" and "length s \<le> 20"
  shows "profile_create query uuid now body db =
     (case query \<lparr>player_id = uuid, display_name = s, created_at = now, last_active = now\<rparr> db of
        (None, db') \<Rightarrow> (Failure 500 (js ''Failed to create profile''), db')
      | (Some [], db') \<Rightarrow> (Failure 500 (js ''Failed to create profile''), db')
      | (Some (player # rest), db') \<Rightarrow>
          (Profile 201
             \<lparr>json_id = player_id player, json_displayName = display_name player,
              json_createdAt = created_at player, json_lastActive = last_active player\<rparr>,
           db'))"
  using assms
  by (simp add: profile_create_def validateDisplayName_def split: prod.splits option.splits list.splits)

lemma profile_create_undefined:
  assumes "destructure ''displayName'' body = None"
  shows "profile_create query uuid now body db = (Failure 500 (js ''Failed to create profile''), db)"
  using assms by (simp add: profile_create_def)

lemma validation_message:
  "\<not> valid (validateDisplayName v) \<Longrightarrow> the (error (validateDisplayName v)) \<noteq> []"
  by (cases v) (auto simp: validateDisplayName_def js_def split: if_splits)

lemma profile_create_400:
  "status (fst (profile_create query uuid now body db)) = 400 \<longleftrightarrow>
     (\<exists>v. destructure ''displayName'' body = Some v \<and>
          \<not> (\<exists>t. v = JString t \<and> 3 \<le> length t \<and> length t \<le> 20))"
proof (cases "destructure ''displayName'' body")
  case None
  then show ?thesis by (simp add: profile_create_undefined)
next
  case (Some v)
  show ?thesis
  proof (cases "valid (validateDisplayName v)")
    case False
    with Some show ?thesis
      by (simp add: profile_create_invalid validateDisplayName_valid)
  next
    case True
    then obtain s where s: "v = JString s" "3 \<le> length s" "length s \<le> 20"
      by (auto simp: validateDisplayName_valid)
    have "status (fst (profile_create query uuid now body db)) \<noteq> 400"
      using profile_create_valid[of body s query uuid now db] Some s
      by (auto split: prod.splits option.splits list.splits)
    with Some s show ?thesis by auto
  qed
qed

lemma profile_create_201:
  "status (fst (profile_create query uuid now body db)) = 201 \<longleftrightarrow>
     (\<exists>s player rest db'. destructure ''displayName'' body = Some (JString s) \<and>
          3 \<le> length s \<and> length s \<le> 20 \<and>
          query \<lparr>player_id = uuid, display_name = s, created_at = now, last_active = now\<rparr> db =
            (Some (player # rest), db'))"
proof (cases "destructure ''displayName'' body")
  case None
  then show ?thesis by (simp add: profile_create_undefined)
next
  case (Some v)
  show ?thesis
  proof (cases "valid (validateDisplayName v)")
    case False
    with Some show ?thesis
      by (auto simp: profile_create_invalid validateDisplayName_valid)
  next
    case True
    then obtain s where s: "v = JString s" "3 \<le> length s" "length s \<le> 20"
      by (auto simp: validateDisplayName_valid)
    show ?thesis
      using profile_create_valid[of body s query uuid now db] Some s
      by (auto split: prod.splits option.splits list.splits)
  qed
qed

lemma trim_spaces: "trim (js ''   '') = []"
  by (simp add: trim_def js_def isWhiteSpace_def)

lemma trim_padded: "length (trim (js '' Abcdefghijklmnopqrst '')) = 20"
  by (simp add: trim_def js_def isWhiteSpace_def)

lemma destructure_field: "destructure f (JObject [(f, v)]) = Some v"
  by (simp add: destructure_def)

text \<open>
  C7 as stated speaks of the trimmed length.  Three spaces have trimmed length 0, yet the
  handler answers 201 and inserts the row; a name of 20 letters between two spaces has
  trimmed length 20, yet the handler answers 400.
\<close>

theorem profile_create_counterexample:
  "length (trim (js ''   '')) = 0 \<and>
   profile_create insert_player ''u1'' 7 (JObject [(''displayName'', JString (js ''   ''))]) emptyDb =
     (Profile 201 \<lparr>json_id = ''u1'', json_displayName = js ''   '', json_createdAt = 7,
                    json_lastActive = 7\<rparr>,
      emptyDb\<lparr>players := [\<lparr>player_id = ''u1'', display_name = js ''   '', created_at = 7,
                                last_active = 7\<rparr>]\<rparr>) \<and>
   length (trim (js '' Abcdefghijklmnopqrst '')) = 20 \<and>
   status (fst (profile_create insert_player ''u1'' 7
      (JObject [(''displayName'', JString (js '' Abcdefghijklmnopqrst ''))]) emptyDb)) = 400"
proof -
  have len: "3 \<le> length (js ''   '')" "length (js ''   '') \<le> 20"
    by (simp_all add: js_def)
  have "profile_create insert_player ''u1'' 7 (JObject [(''displayName'', JString (js ''   ''))]) emptyDb =
     (Profile 201 \<lparr>json_id = ''u1'', json_displayName = js ''   '', json_createdAt = 7,
                    json_lastActive = 7\<rparr>,
      emptyDb\<lparr>players := [\<lparr>player_id = ''u1'', display_name = js ''   '', created_at = 7,
                                last_active = 7\<rparr>]\<rparr>)"
    using profile_create_valid[OF destructure_field len, of insert_player "''u1''" 7 emptyDb]
    by (simp add: emptyDb_def insert_player_def)
  moreover have "status (fst (profile_create insert_player ''u1'' 7
      (JObject [(''displayName'', JString (js '' Abcdefghijklmnopqrst ''))]) emptyDb)) = 400"
    by (simp add: profile_create_invalid[OF destructure_field] validateDisplayName_def js_def)
  ultimately show ?thesis by (simp add: trim_spaces trim_padded)
qed

text \<open>
  C7, as the handler has it, for every database operation \<open>query\<close>.  The handler
  validates the length of the display name as it was sent, without trimming.  When the
  body carries a string of 3 to 20 code units and the insert returns a row, the answer
  is 201 with the identifier, the display name and the two dates of that row, and the
  database is what the insert left.  When the insert rejects or returns no row, the
  answer is 500; so it is when the body cannot be destructured.  When the body carries
  anything else under \<open>displayName\<close>, the answer is 400 with an error message, which
  says that the name must be a string or that it must have 3 to 20 characters.  The
  answer is 400 in no other case and 201 in no other case, and with the answer 400 the
  database is the one before the request, whatever \<open>query\<close> would have done: the
  insert is not run.  With the answer 500 nothing of the kind holds: the database is
  what the failed insert left.
\<close>

theorem profile_create_responses:
  "(destructure ''displayName'' body = Some (JString s) \<and> 3 \<le> length s \<and> length s \<le> 20 \<and>
      query \<lparr>player_id = uuid, display_name = s, created_at = now, last_active = now\<rparr> db =
        (Some (player # rest), db') \<longrightarrow>
      profile_create query uuid now body db =
        (Profile 201
           \<lparr>json_id = player_id player, json_displayName = display_name player,
            json_createdAt = created_at player, json_lastActive = last_active player\<rparr>,
         db')) \<and>
   (destructure ''displayName'' body = Some v \<and>
      \<not> (\<exists>t. v = JString t \<and> 3 \<le> length t \<and> length t \<le> 20) \<longrightarrow>
      (\<exists>e. profile_create query uuid now body db = (Failure 400 e, db) \<and> e \<noteq> [])) \<and>
   (destructure ''displayName'' body = Some (JString s) \<and> 3 \<le> length s \<and> length s \<le> 20 \<and>
      (query \<lparr>player_id = uuid, display_name = s, created_at = now, last_active = now\<rparr> db = (None, db') \<or>
       query \<lparr>player_id = uuid, display_name = s, created_at = now, last_active = now\<rparr> db =
         (Some [], db')) \<longrightarrow>
      profile_create query uuid now body db = (Failure 500 (js ''Failed to create profile''), db')) \<and>
   (destructure ''displayName'' body = None \<longrightarrow>
      profile_create query uuid now body db = (Failure 500 (js ''Failed to create profile''), db)) \<and>
   (status (fst (profile_create query uuid now body db)) = 400 \<longleftrightarrow>
      (\<exists>w. destructure ''displayName'' body = Some w \<and>
           \<not> (\<exists>t. w = JString t \<and> 3 \<le> length t \<and> length t \<le> 20))) \<and>
   (status (fst (profile_create query uuid now body db)) = 201 \<longleftrightarrow>
      (\<exists>t p ps d. destructure ''displayName'' body = Some (JString t) \<and>
          3 \<le> length t \<and> length t \<le> 20 \<and>
          query \<lparr>player_id = uuid, display_name = t, created_at = now, last_active = now\<rparr> db =
            (Some (p # ps), d))) \<and>
   (status (fst (profile_create query uuid now body db)) = 400 \<longrightarrow>
      snd (profile_create query uuid now body db) = db) \<and>
   (destructure ''displayName'' body = Some (JString s) \<and> (length s < 3 \<or> 20 < length s) \<longrightarrow>
      profile_create query uuid now body db =
        (Failure 400 (js ''Display name must be 3-20 characters''), db)) \<and>
   (destructure ''displayName'' body = Some v \<and> (\<forall>t. v \<noteq> JString t) \<longrightarrow>
      profile_create query uuid now body db =
        (Failure 400 (js ''Display name must be a string''), db))"
proof -
  let ?row = "\<lparr>player_id = uuid, display_name = s, created_at = now, last_active = now\<rparr>"
  have a: "destructure ''displayName'' body = Some (JString s) \<and> 3 \<le> length s \<and> length s \<le> 20 \<and>
      query ?row db = (Some (player # rest), db') \<longrightarrow>
      profile_create query uuid now body db =
        (Profile 201
           \<lparr>json_id = player_id player, json_displayName = display_name player,
            json_createdAt = created_at player, json_lastActive = last_active player\<rparr>,
         db')"
    using profile_create_valid[of body s query uuid now db] by simp
  have b: "destructure ''displayName'' body = Some v \<and>
      \<not> (\<exists>t. v = JString t \<and> 3 \<le> length t \<and> length t \<le> 20) \<longrightarrow>
      (\<exists>e. profile_create query uuid now body db = (Failure 400 e, db) \<and> e \<noteq> [])"
  proof
    assume h: "destructure ''displayName'' body = Some v \<and>
      \<not> (\<exists>t. v = JString t \<and> 3 \<le> length t \<and> length t \<le> 20)"
    then have nv: "\<not> valid (validateDisplayName v)" by (simp add: validateDisplayName_valid)
    with h profile_create_invalid[of body v query uuid now db] validation_message[of v] show
      "\<exists>e. profile_create query uuid now body db = (Failure 400 e, db) \<and> e \<noteq> []" by auto
  qed
  have f: "destructure ''displayName'' body = Some (JString s) \<and> 3 \<le> length s \<and> length s \<le> 20 \<and>
      (query ?row db = (None, db') \<or> query ?row db = (Some [], db')) \<longrightarrow>
      profile_create query uuid now body db = (Failure 500 (js ''Failed to create profile''), db')"
    using profile_create_valid[of body s query uuid now db] by auto
  have u: "destructure ''displayName'' body = None \<longrightarrow>
      profile_create query uuid now body db = (Failure 500 (js ''Failed to create profile''), db)"
    by (simp add: profile_create_undefined)
  have c: "status (fst (profile_create query uuid now body db)) = 400 \<longrightarrow>
      snd (profile_create query uuid now body db) = db"
  proof
    assume "status (fst (profile_create query uuid now body db)) = 400"
    then obtain w where w: "destructure ''displayName'' body = Some w"
      "\<not> (\<exists>t. w = JString t \<and> 3 \<le> length t \<and> length t \<le> 20)"
      unfolding profile_create_400 by blast
    then have "\<not> valid (validateDisplayName w)" by (simp add: validateDisplayName_valid)
    with w show "snd (profile_create query uuid now body db) = db"
      by (simp add: profile_create_invalid)
  qed
  have m1: "destructure ''displayName'' body = Some (JString s) \<and> (length s < 3 \<or> 20 < length s) \<longrightarrow>
      profile_create query uuid now body db =
        (Failure 400 (js ''Display name must be 3-20 characters''), db)"
    by (auto simp: profile_create_def validateDisplayName_def)
  have m2: "destructure ''displayName'' body = Some v \<and> (\<forall>t. v \<noteq> JString t) \<longrightarrow>
      profile_create query uuid now body db =
        (Failure 400 (js ''Display name must be a string''), db)"
    by (cases v) (auto simp: profile_create_def validateDisplayName_def)
  from a b f u c m1 m2 profile_create_400[of query uuid now body db]
    profile_create_201[of query uuid now body db]
  show ?thesis by blast
qed

theorem profile_create_responses_witness:
  "profile_create insert_player ''u1'' 7 (JObject [(''displayName'', JString (js ''Alice''))]) emptyDb =
     (Profile 201 \<lparr>json_id = ''u1'', json_displayName = js ''Alice'', json_createdAt = 7,
                    json_lastActive = 7\<rparr>,
      emptyDb\<lparr>players := players emptyDb @
         [\<lparr>player_id = ''u1'', display_name = js ''Alice'', created_at = 7, last_active = 7\<rparr>]\<rparr>) \<and>
   (\<exists>e. profile_create insert_player ''u1'' 7 (JObject [(''displayName'', JString (js ''Al''))]) emptyDb =
          (Failure 400 e, emptyDb) \<and> e \<noteq> []) \<and>
   status (fst (profile_create insert_player ''u1'' 7
      (JObject [(''displayName'', JString (js ''Al''))]) emptyDb)) = 400 \<and>
   snd (profile_create insert_player ''u1'' 7
      (JObject [(''displayName'', JString (js ''Al''))]) emptyDb) = emptyDb \<and>
   profile_create insert_player ''u1'' 7 (JObject [(''displayName'', JString (js ''Alice''))])
       (emptyDb\<lparr>reachable := False\<rparr>) =
     (Failure 500 (js ''Failed to create profile''), emptyDb\<lparr>reachable := False\<rparr>) \<and>
   profile_create insert_player ''u1'' 7 JNull emptyDb =
     (Failure 500 (js ''Failed to create profile''), emptyDb) \<and>
   profile_create insert_then_lost ''u1'' 7 (JObject [(''displayName'', JString (js ''Alice''))]) emptyDb =
     (Failure 500 (js ''Failed to create profile''),
      emptyDb\<lparr>players := players emptyDb @
         [\<lparr>player_id = ''u1'', display_name = js ''Alice'', created_at = 7, last_active = 7\<rparr>]\<rparr>) \<and>
   profile_create insert_player ''u1'' 7 (JObject [(''displayName'', JString (js ''Al''))]) emptyDb =
     (Failure 400 (js ''Display name must be 3-20 characters''), emptyDb) \<and>
   profile_create insert_player ''u1'' 7 (JObject [(''displayName'', JNumber 5)]) emptyDb =
     (Failure 400 (js ''Display name must be a string''), emptyDb)"
proof -
  let ?alice = "JObject [(''displayName'', JString (js ''Alice''))]"
  let ?al = "JObject [(''displayName'', JString (js ''Al''))]"
  let ?row = "\<lparr>player_id = ''u1'', display_name = js ''Alice'', created_at = 7, last_active = 7\<rparr>"
  let ?down = "emptyDb\<lparr>reachable := False\<rparr>"
  have l1: "3 \<le> length (js ''Alice'')" "length (js ''Alice'') \<le> 20"
    and l2: "\<not> (\<exists>t. JString (js ''Al'') = JString t \<and> 3 \<le> length t \<and> length t \<le> 20)"
    by (simp_all add: js_def)
  have d1: "destructure ''displayName'' ?alice = Some (JString (js ''Alice''))"
    and d2: "destructure ''displayName'' ?al = Some (JString (js ''Al''))"
    and d3: "destructure ''displayName'' JNull = None"
    by (simp_all add: destructure_def)
  have q1: "insert_player ?row emptyDb = (Some (?row # []), emptyDb\<lparr>players := players emptyDb @ [?row]\<rparr>)"
    and q2: "insert_player ?row ?down = (None, ?down)"
    and q3: "insert_then_lost ?row emptyDb = (None, emptyDb\<lparr>players := players emptyDb @ [?row]\<rparr>)"
    by (simp_all add: insert_player_def insert_then_lost_def emptyDb_def)
  note t1 = profile_create_responses[of ?alice "js ''Alice''" insert_player "''u1''" 7 emptyDb
      ?row "[]" "emptyDb\<lparr>players := players emptyDb @ [?row]\<rparr>" "JString (js ''Alice'')"]
  note t2 = profile_create_responses[of ?al "js ''Al''" insert_player "''u1''" 7 emptyDb
      ?row "[]" emptyDb "JString (js ''Al'')"]
  note t3 = profile_create_responses[of ?alice "js ''Alice''" insert_player "''u1''" 7 ?down
      ?row "[]" ?down "JString (js ''Alice'')"]
  note t4 = profile_create_responses[of JNull "js ''Alice''" insert_player "''u1''" 7 emptyDb
      ?row "[]" emptyDb "JString (js ''Alice'')"]
  note t5 = profile_create_responses[of ?alice "js ''Alice''" insert_then_lost "''u1''" 7 emptyDb
      ?row "[]" "emptyDb\<lparr>players := players emptyDb @ [?row]\<rparr>" "JString (js ''Alice'')"]
  have a: "profile_create insert_player ''u1'' 7 ?alice emptyDb =
     (Profile 201 \<lparr>json_id = player_id ?row, json_displayName = display_name ?row,
                    json_createdAt = created_at ?row, json_lastActive = last_active ?row\<rparr>,
      emptyDb\<lparr>players := players emptyDb @ [?row]\<rparr>)"
    using t1 l1 d1 q1 by blast
  have b: "\<exists>e. profile_create insert_player ''u1'' 7 ?al emptyDb = (Failure 400 e, emptyDb) \<and> e \<noteq> []"
    using t2 l2 d2 by blast
  have c: "status (fst (profile_create insert_player ''u1'' 7 ?al emptyDb)) = 400"
    using t2 l2 d2 by blast
  have e: "snd (profile_create insert_player ''u1'' 7 ?al emptyDb) = emptyDb"
    using t2 c by blast
  have f: "profile_create insert_player ''u1'' 7 ?alice ?down =
     (Failure 500 (js ''Failed to create profile''), ?down)"
    using t3 l1 d1 q2 by blast
  have g: "profile_create insert_player ''u1'' 7 JNull emptyDb =
     (Failure 500 (js ''Failed to create profile''), emptyDb)"
    using t4 d3 by blast
  have h: "profile_create insert_then_lost ''u1'' 7 ?alice emptyDb =
     (Failure 500 (js ''Failed to create profile''), emptyDb\<lparr>players := players emptyDb @ [?row]\<rparr>)"
    using t5 l1 d1 q3 by blast
  have l3: "length (js ''Al'') < 3 \<or> 20 < length (js ''Al'')" by (simp add: js_def)
  have m: "profile_create insert_player ''u1'' 7 ?al emptyDb =
     (Failure 400 (js ''Display name must be 3-20 characters''), emptyDb)"
    using t2 d2 l3 by blast
  note t6 = profile_create_responses[of "JObject [(''displayName'', JNumber 5)]" "js ''Al''"
      insert_player "''u1''" 7 emptyDb ?row "[]" emptyDb "JNumber 5"]
  have d4: "destructure ''displayName'' (JObject [(''displayName'', JNumber 5)]) = Some (JNumber 5)"
    "\<forall>t. JNumber 5 \<noteq> JString t"
    by (simp_all add: destructure_def)
  have n: "profile_create insert_player ''u1'' 7 (JObject [(''displayName'', JNumber 5)]) emptyDb =
     (Failure 400 (js ''Display name must be a string''), emptyDb)"
    using t6 d4 by blast
  from a b c e f g h m n show ?thesis by simp
qed








section \<open>Properties of the hit test\<close>









lemma unhover_panels: "panels (unhover s) = panels s"
  by (cases "hoveredButton s"; simp add: unhover_def setButtonHover_def)



lemma unhover_mesh: "mesh (store (unhover s) a) = mesh (store s a)"
  by (cases "hoveredButton s"; simp add: unhover_def setButtonHover_def)

lemma unhover_onClick: "onClick (store (unhover s) a) = onClick (store s a)"
  by (cases "hoveredButton s"; simp add: unhover_def setButtonHover_def)


lemma unhover_visibleButtons: "visibleButtons (unhover s) = visibleButtons s"
  by (simp add: visibleButtons_def unhover_panels)


lemma unhover_others: "hoveredButton s \<noteq> Some a \<Longrightarrow> store (unhover s) a = store s a"
  by (cases "hoveredButton s"; simp add: unhover_def setButtonHover_def)




section \<open>The example states, computed\<close>

lemmas constructor_defs =
  AppFlowController_new_def VirtualKeyboard_new_def SongSearchPanel_new_def
  RoomSelectionPanel_new_def ProfileInputPanel_new_def UISystem_new_def createPanel_def
  addButtonToPanel_def hideRoot_def addRoomButton_def createRoomButton_def panelButton_def
  createButton_def themeName_def themeDisplayName_def themePrimaryColor_def

lemma a0n_panels:
  "panels (uiSystem a0n) =
     [(ProfileInput, \<lparr>buttons = [0, 1], isVisible = False, rootObject_visible = False\<rparr>),
      (RoomSelection, \<lparr>buttons = [2, 3, 4, 5, 6], isVisible = False, rootObject_visible = False\<rparr>),
      (SongSearch, \<lparr>buttons = [7, 8, 9], isVisible = False, rootObject_visible = False\<rparr>),
      (Keyboard, \<lparr>buttons = [], isVisible = False, rootObject_visible = False\<rparr>)]"
  "next_ref (uiSystem a0n) = 10"
  "hoveredButton (uiSystem a0n) = None"
  by (simp_all add: a0n_def constructor_defs)

lemma a0n_store:
  "store (uiSystem a0n) =
     (\<lambda>a. createButton [] [] 0 SubmitName)
     (0 := panelButton ''name-input'' ''Enter name...'' 0 ''#0f0f23'' OpenProfileKeyboard,
      1 := panelButton ''submit-name'' ''Continue'' 1 ''#27ae60'' SubmitName,
      2 := createRoomButton Anime 2,
      3 := createRoomButton Kpop 3,
      4 := createRoomButton Bollywood 4,
      5 := createRoomButton Hollywood 5,
      6 := createRoomButton TaylorSwift 6,
      7 := panelButton ''search-input'' ''Search...'' 7 ''#2d2d44'' OpenSearchKeyboard,
      8 := panelButton ''stop'' ''Stop'' 8 ''#c0392b'' StopSong,
      9 := panelButton ''back'' ''Back'' 9 ''#7f8c8d'' BackToRooms)"
  by (simp add: a0n_def AppFlowController_new_def VirtualKeyboard_new_def SongSearchPanel_new_def
  RoomSelectionPanel_new_def ProfileInputPanel_new_def UISystem_new_def createPanel_def
  addButtonToPanel_def hideRoot_def addRoomButton_def eval_nat_numeral)


lemma a0n_fields:
  "calls a0n = []" "loadingVisible a0n = False" "currentState a0n = Initializing"
  "lastFailedAction a0n = None" "currentRoom a0n = None"
  "profileInputPanel a0n = \<lparr>displayName = [], errorMessage = []\<rparr>"
  by (simp_all add: a0n_def AppFlowController_new_def)

lemmas flow_defs =
  start_def start_then_def showProfileInput_def showRoomSelection_def setState_def
  showLoading_def hideLoading_def hideAllPanels_def hidePanel_def showPanel_def
  panel_reset_def Let_def

lemmas button_defs = panelButton_def createRoomButton_def createSongButton_def
  themeName_def themeDisplayName_def themePrimaryColor_def

lemma profileShown_ui:
  "panels (uiSystem profileShown) =
     [(ProfileInput, \<lparr>buttons = [0, 1], isVisible = True, rootObject_visible = True\<rparr>),
      (RoomSelection, \<lparr>buttons = [2, 3, 4, 5, 6], isVisible = False, rootObject_visible = False\<rparr>),
      (SongSearch, \<lparr>buttons = [7, 8, 9], isVisible = False, rootObject_visible = False\<rparr>),
      (Keyboard, \<lparr>buttons = [], isVisible = False, rootObject_visible = False\<rparr>)]"
  "store (uiSystem profileShown) = store (uiSystem a0n)"
  "hoveredButton (uiSystem profileShown) = None"
  by (simp_all add: profileShown_def flow_defs a0n_panels)

lemma profileShown_fields:
  "calls profileShown = []" "loadingVisible profileShown = False"
  "currentState profileShown = AtProfileInput"
  by (simp_all add: profileShown_def flow_defs a0n_fields)

lemma aliceSubmitted_eq:
  "aliceSubmitted =
     profileShown\<lparr>profileInputPanel := \<lparr>displayName = js ''Alice'', errorMessage = []\<rparr>,
                   loadingVisible := True, calls := [CreateProfile (js ''Alice'')]\<rparr>"
proof -
  have t: "trim (js ''Alice'') = js ''Alice''"
    by (simp add: trim_def js_def isWhiteSpace_def)
  have l: "length (js ''Alice'') = 5" by (simp add: js_def)
  show ?thesis
    by (simp add: aliceSubmitted_def aliceTyped_def handleSubmit_def panel_handleSubmit_def
        validateName_def setDisplayName_def handleProfileSubmit_def showLoading_def
        NAME_MIN_LENGTH_def NAME_MAX_LENGTH_def t l profileShown_fields)
qed







lemma songSearchOnce_ui:
  "panels (uiSystem songSearchOnce) =
     [(ProfileInput, \<lparr>buttons = [0, 1], isVisible = False, rootObject_visible = False\<rparr>),
      (RoomSelection, \<lparr>buttons = [2, 3, 4, 5, 6], isVisible = False, rootObject_visible = False\<rparr>),
      (SongSearch, \<lparr>buttons = [7, 8, 9, 10], isVisible = True, rootObject_visible = True\<rparr>),
      (Keyboard, \<lparr>buttons = [], isVisible = False, rootObject_visible = False\<rparr>)]"
  "store (uiSystem songSearchOnce) = (store (uiSystem a0n))(10 := createSongButton loveStory 10)"
  "next_ref (uiSystem songSearchOnce) = 11"
  "hoveredButton (uiSystem songSearchOnce) = None"
  by (simp_all add: songSearchOnce_def showSongSearch_then_def loadSongs_then_def updateSongList_def
      addSongButton_def addButtonToPanel_def showSongSearch_def flow_defs a0n_panels)




section \<open>The hit test on a well-formed registry\<close>




section \<open>Input while the loading indicator is visible\<close>

lemma aliceSubmitted_raycast:
  "handleRaycast (oneHit 1) (uiSystem aliceSubmitted) =
     (Some 1, (setButtonHover 1 True (uiSystem aliceSubmitted))\<lparr>hoveredButton := Some 1\<rparr>)"
  by (simp add: handleRaycast_def Let_def visibleButtons_def allButtons_def intersectObjects_def
      unhover_def aliceSubmitted_eq profileShown_ui a0n_store button_defs oneHit_def)

lemma aliceSubmitted_visible: "hasVisiblePanel (uiSystem aliceSubmitted)"
  by (simp add: hasVisiblePanel_def aliceSubmitted_eq profileShown_ui)

lemma update_while_loading: "loadingVisible a \<Longrightarrow> update roomSetup near xr a = a"
  by (simp add: update_def)

text \<open>
  C6 at a state the program reaches.  Alice has submitted her name and the request to the
  profile service is pending: the loading indicator is visible and so is the
  profile-input panel, which \<open>handleProfileSubmit\<close> does not hide.  A frame update does
  nothing in this state (\<open>update_while_loading\<close>).  A mouse move over the submit button
  computes a hover, and a mouse click on it computes a hover and runs the button's
  callback, which sends the request a second time.
\<close>

theorem click_during_loading:
  "loadingVisible aliceSubmitted \<and>
   calls aliceSubmitted = [CreateProfile (js ''Alice'')] \<and>
   hasVisiblePanel (uiSystem aliceSubmitted) \<and>
   hoveredButton (uiSystem aliceSubmitted) = None \<and>
   hoveredButton (uiSystem (onMouseMove (oneHit 1) aliceSubmitted)) = Some 1 \<and>
   hoveredButton (uiSystem (onMouseClick (\<lambda>t. Resolved) (oneHit 1) aliceSubmitted)) = Some 1 \<and>
   calls (onMouseClick (\<lambda>t. Resolved) (oneHit 1) aliceSubmitted) =
     [CreateProfile (js ''Alice''), CreateProfile (js ''Alice'')]"
proof -
  have t: "trim (js ''Alice'') = js ''Alice''"
    by (simp add: trim_def js_def isWhiteSpace_def)
  have l: "length (js ''Alice'') = 5" by (simp add: js_def)
  have 1: "loadingVisible aliceSubmitted" "calls aliceSubmitted = [CreateProfile (js ''Alice'')]"
    "hoveredButton (uiSystem aliceSubmitted) = None"
    "profileInputPanel aliceSubmitted = \<lparr>displayName = js ''Alice'', errorMessage = []\<rparr>"
    by (simp_all add: aliceSubmitted_eq profileShown_ui)
  have 2: "hoveredButton (uiSystem (onMouseMove (oneHit 1) aliceSubmitted)) = Some 1"
    unfolding onMouseMove_def aliceSubmitted_raycast by (simp add: aliceSubmitted_visible)
  have s: "onClick (store (uiSystem aliceSubmitted) (Suc 0)) = SubmitName"
    by (simp add: aliceSubmitted_eq profileShown_ui a0n_store button_defs)
  have c: "onMouseClick (\<lambda>t. Resolved) (oneHit 1) aliceSubmitted =
        handleSubmit (aliceSubmitted\<lparr>uiSystem :=
           (setButtonHover 1 True (uiSystem aliceSubmitted))\<lparr>hoveredButton := Some 1\<rparr>\<rparr>)"
    unfolding onMouseClick_def aliceSubmitted_raycast
    by (simp add: aliceSubmitted_visible setButtonHover_def s)
  have 3: "hoveredButton (uiSystem (onMouseClick (\<lambda>t. Resolved) (oneHit 1) aliceSubmitted)) = Some 1"
    unfolding c
    by (simp add: handleSubmit_def panel_handleSubmit_def validateName_def 1
        handleProfileSubmit_def showLoading_def NAME_MIN_LENGTH_def NAME_MAX_LENGTH_def t l)
  have 4: "calls (onMouseClick (\<lambda>t. Resolved) (oneHit 1) aliceSubmitted) =
     [CreateProfile (js ''Alice''), CreateProfile (js ''Alice'')]"
    unfolding c
    by (simp add: handleSubmit_def panel_handleSubmit_def validateName_def 1
        handleProfileSubmit_def showLoading_def NAME_MIN_LENGTH_def NAME_MAX_LENGTH_def t l)
  from 1 2 3 4 aliceSubmitted_visible show ?thesis by simp
qed

section \<open>Properties of the trigger edge\<close>

















section \<open>Properties of the application flow\<close>

lemma showPanel_lookup:
  "map_of (panels (showPanel k s)) t =
     (if t = k then map_option (\<lambda>p. p\<lparr>isVisible := True, rootObject_visible := True\<rparr>) (map_of (panels s) t)
      else map_of (panels s) t)"
  by (cases "map_of (panels s) k") (auto simp: showPanel_def update_conv')

lemma panelVisible_showPanel:
  "panelVisible (showPanel k s) t \<longleftrightarrow>
     (if t = k then map_of (panels s) k \<noteq> None else panelVisible s t)"
  by (cases "map_of (panels s) t") (auto simp: panelVisible_def showPanel_lookup)

lemma panelVisible_hidePanel:
  "panelVisible (hidePanel k s) t \<longleftrightarrow> t \<noteq> k \<and> panelVisible s t"
  by (cases "map_of (panels s) t") (auto simp: panelVisible_def hidePanel_lookup hide_def)

lemma hideAllPanels_registered:
  "map_of (panels (hideAllPanels s)) t = None \<longleftrightarrow> map_of (panels s) t = None"
  by (simp add: hideAllPanels_lookup)

lemma showProfileInput_visible:
  "panelVisible (uiSystem (showProfileInput a)) t \<longleftrightarrow>
     t = ProfileInput \<and> map_of (panels (uiSystem a)) ProfileInput \<noteq> None"
  by (simp add: showProfileInput_def setState_def Let_def panelVisible_showPanel
      hideAllPanels_not_visible hideAllPanels_registered)

lemma showRoomSelection_visible:
  "panelVisible (uiSystem (showRoomSelection a)) t \<longleftrightarrow>
     t = RoomSelection \<and> map_of (panels (uiSystem a)) RoomSelection \<noteq> None"
  by (simp add: showRoomSelection_def setState_def Let_def panelVisible_showPanel
      hideAllPanels_not_visible hideAllPanels_registered)

lemma showSongSearch_visible:
  "\<not> panelVisible (uiSystem (showSongSearch a)) t"
  "panelVisible (uiSystem (showSongSearch_then Resolved (showSongSearch a))) t \<longleftrightarrow>
     t = SongSearch \<and> map_of (panels (uiSystem a)) SongSearch \<noteq> None"
  "\<not> panelVisible (uiSystem (showSongSearch_then (Rejected e) (showSongSearch a))) t"
  by (simp_all add: showSongSearch_def showSongSearch_then_def setState_def showLoading_def
      hideLoading_def showError_def Let_def panelVisible_showPanel
      hideAllPanels_not_visible hideAllPanels_registered)

lemma playVideo_ui: "uiSystem (playVideo y a) = uiSystem a" "currentState (playVideo y a) = currentState a"
  by (cases "currentRoom a"; simp add: playVideo_def)+

lemma handleSongSelect_visible:
  "panelVisible (uiSystem (handleSongSelect y a)) t \<longleftrightarrow> t \<noteq> SongSearch \<and> panelVisible (uiSystem a) t"
  by (simp add: handleSongSelect_def Let_def playVideo_ui setState_def panelVisible_hidePanel)

lemma flow_states:
  "currentState (showProfileInput a) = AtProfileInput"
  "currentState (showRoomSelection a) = AtRoomSelection"
  "currentState (showSongSearch a) = AtSongSearch"
  "currentState (showSongSearch_then Resolved (showSongSearch a)) = AtSongSearch"
  "currentState (handleSongSelect y a) = PlayingSong"
  by (simp_all add: showProfileInput_def showRoomSelection_def showSongSearch_def
      showSongSearch_then_def handleSongSelect_def playVideo_ui setState_def showLoading_def
      hideLoading_def Let_def)

lemma fold_addSongButton_state:
  "currentState (fold addSongButton xs a) = currentState a"
  by (induction xs arbitrary: a) (simp_all add: addSongButton_def)

lemma loadSongs_then_state: "currentState (loadSongs_then d a) = currentState a"
  by (cases d; cases "map_of (panels (uiSystem a)) SongSearch")
     (simp_all add: loadSongs_then_def updateSongList_def fold_addSongButton_state)

lemma keyboardOpen_ui: "uiSystem keyboardOpen = showPanel Keyboard (uiSystem songSearchOnce)"
  by (simp add: keyboardOpen_def openKeyboard_def Let_def)

lemma songSearchOnce_visible:
  "panelVisible (uiSystem songSearchOnce) t \<longleftrightarrow> t = SongSearch"
  by (cases t) (simp_all add: panelVisible_def songSearchOnce_ui)

lemma keyboardOpen_visible:
  "panelVisible (uiSystem keyboardOpen) t \<longleftrightarrow> t = SongSearch \<or> t = Keyboard"
  unfolding keyboardOpen_ui panelVisible_showPanel songSearchOnce_visible
  by (simp add: songSearchOnce_ui)

lemma addButtonToPanel_lookup:
  "map_of (panels (addButtonToPanel k b s)) t =
     (if t = k then map_option (\<lambda>p. p\<lparr>buttons := buttons p @ [next_ref s]\<rparr>) (map_of (panels s) t)
      else map_of (panels s) t)"
  by (cases "map_of (panels s) k") (auto simp: addButtonToPanel_def update_conv')

lemma panelVisible_addButtonToPanel:
  "panelVisible (addButtonToPanel k b s) t \<longleftrightarrow> panelVisible s t"
  by (cases "map_of (panels s) t") (auto simp: panelVisible_def addButtonToPanel_lookup)

lemma registered_addButtonToPanel:
  "map_of (panels (addButtonToPanel k b s)) t = None \<longleftrightarrow> map_of (panels s) t = None"
  by (simp add: addButtonToPanel_lookup)

lemma fold_addSongButton_visible:
  "panelVisible (uiSystem (fold addSongButton xs a)) t \<longleftrightarrow> panelVisible (uiSystem a) t"
  by (induction xs arbitrary: a) (simp_all add: addSongButton_def panelVisible_addButtonToPanel)

lemma fold_addSongButton_registered:
  "map_of (panels (uiSystem (fold addSongButton xs a))) t = None \<longleftrightarrow>
   map_of (panels (uiSystem a)) t = None"
  by (induction xs arbitrary: a) (simp_all add: addSongButton_def registered_addButtonToPanel)

lemma loadSongs_then_visible:
  "panelVisible (uiSystem (loadSongs_then d a)) t \<longleftrightarrow> panelVisible (uiSystem a) t"
  by (cases d; cases "map_of (panels (uiSystem a)) SongSearch")
     (simp_all add: loadSongs_then_def updateSongList_def fold_addSongButton_visible)

lemma loadSongs_then_registered:
  "map_of (panels (uiSystem (loadSongs_then d a))) t = None \<longleftrightarrow>
   map_of (panels (uiSystem a)) t = None"
  by (cases d; cases "map_of (panels (uiSystem a)) SongSearch")
     (simp_all add: loadSongs_then_def updateSongList_def fold_addSongButton_registered)

lemma showSongSearch_then_visible:
  "panelVisible (uiSystem (showSongSearch_then Resolved b)) t \<longleftrightarrow>
     t = SongSearch \<and> map_of (panels (uiSystem b)) SongSearch \<noteq> None \<or> panelVisible (uiSystem b) t"
  "uiSystem (showSongSearch_then (Rejected e) b) = uiSystem b"
  "currentState (showSongSearch_then Resolved b) = currentState b"
proof -
  have r: "map_of (panels (uiSystem b)) SongSearch = None \<Longrightarrow> \<not> panelVisible (uiSystem b) SongSearch"
    by (simp add: panelVisible_def)
  show "panelVisible (uiSystem (showSongSearch_then Resolved b)) t \<longleftrightarrow>
     t = SongSearch \<and> map_of (panels (uiSystem b)) SongSearch \<noteq> None \<or> panelVisible (uiSystem b) t"
    using r by (auto simp: showSongSearch_then_def hideLoading_def Let_def panelVisible_showPanel)
  show "uiSystem (showSongSearch_then (Rejected e) b) = uiSystem b"
    by (simp add: showSongSearch_then_def hideLoading_def showError_def setState_def)
  show "currentState (showSongSearch_then Resolved b) = currentState b"
    by (simp add: showSongSearch_then_def hideLoading_def Let_def)
qed

lemma showSongSearch_loaded_visible:
  "panelVisible (uiSystem (showSongSearch_then Resolved (loadSongs_then d (showSongSearch a)))) t \<longleftrightarrow>
     t = SongSearch \<and> map_of (panels (uiSystem a)) SongSearch \<noteq> None"
  unfolding showSongSearch_then_visible loadSongs_then_visible loadSongs_then_registered
  by (simp add: showSongSearch_def setState_def showLoading_def Let_def
      hideAllPanels_registered hideAllPanels_not_visible)

lemma submittedTwice_eq:
  "submittedTwice =
     aliceSubmitted\<lparr>uiSystem := (setButtonHover 1 True (uiSystem aliceSubmitted))\<lparr>hoveredButton := Some 1\<rparr>,
                      calls := [CreateProfile (js ''Alice''), CreateProfile (js ''Alice'')]\<rparr>"
proof -
  have t: "trim (js ''Alice'') = js ''Alice''"
    by (simp add: trim_def js_def isWhiteSpace_def)
  have l: "length (js ''Alice'') = 5" by (simp add: js_def)
  have 1: "loadingVisible aliceSubmitted" "calls aliceSubmitted = [CreateProfile (js ''Alice'')]"
    "profileInputPanel aliceSubmitted = \<lparr>displayName = js ''Alice'', errorMessage = []\<rparr>"
    by (simp_all add: aliceSubmitted_eq)
  have s: "onClick (store (uiSystem aliceSubmitted) (Suc 0)) = SubmitName"
    by (simp add: aliceSubmitted_eq profileShown_ui a0n_store button_defs)
  have c: "submittedTwice =
        handleSubmit (aliceSubmitted\<lparr>uiSystem :=
           (setButtonHover 1 True (uiSystem aliceSubmitted))\<lparr>hoveredButton := Some 1\<rparr>\<rparr>)"
    unfolding submittedTwice_def onMouseClick_def aliceSubmitted_raycast
    by (simp add: aliceSubmitted_visible setButtonHover_def s)
  show ?thesis
    unfolding c
    by (simp add: handleSubmit_def panel_handleSubmit_def validateName_def 1
        handleProfileSubmit_def showLoading_def NAME_MIN_LENGTH_def NAME_MAX_LENGTH_def t l)
qed

lemma submittedTwice_panels: "panels (uiSystem submittedTwice) = panels (uiSystem profileShown)"
  by (simp add: submittedTwice_eq setButtonHover_def aliceSubmitted_eq)

lemma registered_steps:
  "map_of (panels (uiSystem (showRoomSelection a))) t = None \<longleftrightarrow> map_of (panels (uiSystem a)) t = None"
  "map_of (panels (uiSystem (showSongSearch a))) t = None \<longleftrightarrow> map_of (panels (uiSystem a)) t = None"
  "uiSystem (hideLoading a) = uiSystem a"
  "uiSystem (handleRoomSelect_then r Resolved a) = uiSystem a"
  "map_of (panels (uiSystem (handleRoomSelect r out a))) t = None \<longleftrightarrow> map_of (panels (uiSystem a)) t = None"
  by (cases out; cases "currentRoom a";
      simp add: showRoomSelection_def showSongSearch_def handleRoomSelect_then_def handleRoomSelect_def
      loadRoom_def unloadCurrentRoom_def setState_def showLoading_def hideLoading_def Let_def
      showPanel_lookup hideAllPanels_registered)+

lemma songsAwaited_registered:
  "map_of (panels (uiSystem songsAwaited)) RoomSelection \<noteq> None"
  "map_of (panels (uiSystem songsAwaited)) SongSearch \<noteq> None"
  by (simp_all add: songsAwaited_def handleProfileSubmit_then_def registered_steps
      submittedTwice_panels profileShown_ui)

lemma songsAwaited_facts:
  "currentState songsAwaited = AtSongSearch" "loadingVisible songsAwaited"
  "\<not> panelVisible (uiSystem songsAwaited) t"
  by (simp_all add: songsAwaited_def showSongSearch_visible flow_states)
     (simp add: showSongSearch_def showLoading_def Let_def)

lemma twoPanels_facts:
  "currentState twoPanels = AtRoomSelection"
  "panelVisible (uiSystem twoPanels) t \<longleftrightarrow> t = RoomSelection \<or> t = SongSearch"
proof -
  let ?b = "handleProfileSubmit_then (js ''Alice'') Resolved songsAwaited"
  have b: "?b = showRoomSelection (hideLoading songsAwaited)"
    by (simp add: handleProfileSubmit_then_def)
  show "currentState twoPanels = AtRoomSelection"
    unfolding twoPanels_def showSongSearch_then_visible loadSongs_then_state b
    by (simp add: flow_states)
  show "panelVisible (uiSystem twoPanels) t \<longleftrightarrow> t = RoomSelection \<or> t = SongSearch"
    unfolding twoPanels_def showSongSearch_then_visible loadSongs_then_visible
      loadSongs_then_registered b showRoomSelection_visible registered_steps
    using songsAwaited_registered by auto
qed

text \<open>
  C3 as stated has every transition hide all panels first and leave at most one panel
  visible.  \<open>handleSongSelect\<close>, which enters playing-song, hides the song-search panel
  only.  With the keyboard open over the song search, selecting a song leaves the
  keyboard panel visible: the registry after the transition is not one in which all
  panels were hidden.  And what \<open>showSongSearch\<close> does after its \<open>await\<close> hides
  nothing.  When a second request for the profile succeeds while the songs are awaited,
  it shows the room selection, and the arrival of the songs then shows the song search
  beside it: two panels are visible, in state room-selection.
\<close>

theorem hide_all_before_show_counterexample:
  "currentState keyboardOpen = AtSongSearch \<and>
   panelVisible (uiSystem keyboardOpen) SongSearch \<and>
   panelVisible (uiSystem keyboardOpen) Keyboard \<and>
   currentState (handleSongSelect ''yt1'' keyboardOpen) = PlayingSong \<and>
   \<not> panelVisible (uiSystem (handleSongSelect ''yt1'' keyboardOpen)) SongSearch \<and>
   panelVisible (uiSystem (handleSongSelect ''yt1'' keyboardOpen)) Keyboard \<and>
   uiSystem (handleSongSelect ''yt1'' keyboardOpen) \<noteq>
     hideAllPanels (uiSystem (handleSongSelect ''yt1'' keyboardOpen)) \<and>
   currentState songsAwaited = AtSongSearch \<and> loadingVisible songsAwaited \<and>
   \<not> panelVisible (uiSystem songsAwaited) RoomSelection \<and>
   \<not> panelVisible (uiSystem songsAwaited) SongSearch \<and>
   panelVisible (uiSystem twoPanels) RoomSelection \<and>
   panelVisible (uiSystem twoPanels) SongSearch \<and>
   currentState twoPanels = AtRoomSelection"
proof -
  have s: "currentState keyboardOpen = AtSongSearch"
    by (simp add: keyboardOpen_def openKeyboard_def songSearchOnce_def Let_def
        showSongSearch_then_def hideLoading_def loadSongs_then_state flow_states)
  have k: "panelVisible (uiSystem (handleSongSelect ''yt1'' keyboardOpen)) Keyboard"
    by (simp add: handleSongSelect_visible keyboardOpen_visible)
  have "\<not> panelVisible (hideAllPanels (uiSystem (handleSongSelect ''yt1'' keyboardOpen))) Keyboard"
    by (rule hideAllPanels_not_visible)
  with k have "uiSystem (handleSongSelect ''yt1'' keyboardOpen) \<noteq>
     hideAllPanels (uiSystem (handleSongSelect ''yt1'' keyboardOpen))"
    by metis
  with s k show ?thesis
    by (simp add: handleSongSelect_visible keyboardOpen_visible flow_states songsAwaited_facts
        twoPanels_facts)
qed

text \<open>
  C3, as the code has it.  \<open>showProfileInput\<close> and \<open>showRoomSelection\<close> hide all panels
  and then show their own: after them that panel is visible, when it is registered, and
  no other.  \<open>showSongSearch\<close> sets the state and hides all panels before it awaits the
  songs, so no panel is visible then.  What runs when the songs have arrived hides
  nothing: \<open>updateSongList\<close> leaves every flag as it is, and the continuation of
  \<open>showSongSearch\<close> shows the song-search panel beside whatever is visible at that
  moment and leaves the state as it is; after a failure it leaves the registry as it is.
  So the song-search panel is the only visible one when nothing but the arrival of the
  songs happened since \<open>showSongSearch\<close>.  \<open>handleSongSelect\<close> hides the song-search
  panel and shows none: every other panel keeps its flag.  Each transition sets its
  state.  The last five equations give the registry after each step in full.
\<close>

theorem hide_all_before_show:
  "(panelVisible (uiSystem (showProfileInput a)) t \<longrightarrow> t = ProfileInput) \<and>
   (panelVisible (uiSystem (showRoomSelection a)) t \<longrightarrow> t = RoomSelection) \<and>
   \<not> panelVisible (uiSystem (showSongSearch a)) t \<and>
   (panelVisible (uiSystem (showSongSearch_then Resolved (showSongSearch a))) t \<longrightarrow> t = SongSearch) \<and>
   \<not> panelVisible (uiSystem (showSongSearch_then (Rejected e) (showSongSearch a))) t \<and>
   (panelVisible (uiSystem (handleSongSelect y a)) t \<longleftrightarrow>
      t \<noteq> SongSearch \<and> panelVisible (uiSystem a) t) \<and>
   currentState (showProfileInput a) = AtProfileInput \<and>
   currentState (showRoomSelection a) = AtRoomSelection \<and>
   currentState (showSongSearch_then Resolved (showSongSearch a)) = AtSongSearch \<and>
   currentState (handleSongSelect y a) = PlayingSong \<and>
   (panelVisible (uiSystem (showProfileInput a)) t \<longleftrightarrow>
      t = ProfileInput \<and> map_of (panels (uiSystem a)) ProfileInput \<noteq> None) \<and>
   (panelVisible (uiSystem (showRoomSelection a)) t \<longleftrightarrow>
      t = RoomSelection \<and> map_of (panels (uiSystem a)) RoomSelection \<noteq> None) \<and>
   currentState (showSongSearch a) = AtSongSearch \<and>
   (panelVisible (uiSystem (loadSongs_then d b)) t \<longleftrightarrow> panelVisible (uiSystem b) t) \<and>
   (panelVisible (uiSystem (showSongSearch_then Resolved b)) t \<longleftrightarrow>
      t = SongSearch \<and> map_of (panels (uiSystem b)) SongSearch \<noteq> None \<or>
      panelVisible (uiSystem b) t) \<and>
   currentState (showSongSearch_then Resolved b) = currentState b \<and>
   uiSystem (showSongSearch_then (Rejected e) b) = uiSystem b \<and>
   (panelVisible (uiSystem (showSongSearch_then Resolved (loadSongs_then d (showSongSearch a)))) t \<longleftrightarrow>
      t = SongSearch \<and> map_of (panels (uiSystem a)) SongSearch \<noteq> None) \<and>
   uiSystem (showProfileInput a) = showPanel ProfileInput (hideAllPanels (uiSystem a)) \<and>
   uiSystem (showRoomSelection a) = showPanel RoomSelection (hideAllPanels (uiSystem a)) \<and>
   uiSystem (showSongSearch a) = hideAllPanels (uiSystem a) \<and>
   uiSystem (showSongSearch_then Resolved b) = showPanel SongSearch (uiSystem b) \<and>
   uiSystem (handleSongSelect y a) = hidePanel SongSearch (uiSystem a)"
proof -
  note l = showSongSearch_loaded_visible[of d a t]
  show ?thesis
    unfolding l
    by (simp add: showProfileInput_visible showRoomSelection_visible showSongSearch_visible
        handleSongSelect_visible flow_states loadSongs_then_visible showSongSearch_then_visible)
       (simp add: showProfileInput_def showRoomSelection_def showSongSearch_def
        showSongSearch_then_def handleSongSelect_def playVideo_ui setState_def showLoading_def
        hideLoading_def Let_def)
qed

theorem hide_all_before_show_witness:
  "panelVisible (uiSystem (showProfileInput a0n)) ProfileInput \<and>
   \<not> panelVisible (uiSystem (showProfileInput a0n)) Keyboard \<and>
   panelVisible (uiSystem (showRoomSelection keyboardOpen)) RoomSelection \<and>
   \<not> panelVisible (uiSystem (showRoomSelection keyboardOpen)) Keyboard \<and>
   \<not> panelVisible (uiSystem (showRoomSelection keyboardOpen)) SongSearch \<and>
   panelVisible (uiSystem (showSongSearch_then Resolved (showSongSearch a0n))) SongSearch \<and>
   \<not> panelVisible (uiSystem (showSongSearch_then Resolved (showSongSearch a0n))) ProfileInput \<and>
   panelVisible (uiSystem (handleSongSelect ''yt1'' keyboardOpen)) Keyboard \<and>
   panelVisible (uiSystem (showSongSearch_then Resolved keyboardOpen)) Keyboard"
proof -
  have r: "map_of (panels (uiSystem keyboardOpen)) RoomSelection \<noteq> None"
    by (simp add: keyboardOpen_def openKeyboard_def Let_def showPanel_lookup songSearchOnce_ui)
  have 1: "panelVisible (uiSystem (showProfileInput a0n)) ProfileInput"
    by (simp add: showProfileInput_visible a0n_panels)
  have 2: "panelVisible (uiSystem (showRoomSelection keyboardOpen)) RoomSelection"
    by (simp add: showRoomSelection_visible r)
  have 3: "panelVisible (uiSystem (showSongSearch_then Resolved (showSongSearch a0n))) SongSearch"
    by (simp add: showSongSearch_visible a0n_panels)
  have 4: "panelVisible (uiSystem keyboardOpen) Keyboard"
    by (simp add: keyboardOpen_visible)
  note t1 = hide_all_before_show[of a0n Keyboard None "''yt1''" None keyboardOpen]
  note t2 = hide_all_before_show[of keyboardOpen Keyboard None "''yt1''" None keyboardOpen]
  note t3 = hide_all_before_show[of keyboardOpen SongSearch None "''yt1''" None keyboardOpen]
  note t4 = hide_all_before_show[of a0n ProfileInput None "''yt1''" None keyboardOpen]
  have 5: "\<not> panelVisible (uiSystem (showProfileInput a0n)) Keyboard" using t1 by blast
  have 6: "\<not> panelVisible (uiSystem (showRoomSelection keyboardOpen)) Keyboard" using t2 by blast
  have 7: "\<not> panelVisible (uiSystem (showRoomSelection keyboardOpen)) SongSearch" using t3 by blast
  have 8: "\<not> panelVisible (uiSystem (showSongSearch_then Resolved (showSongSearch a0n))) ProfileInput"
    using t4 by blast
  have 9: "panelVisible (uiSystem (handleSongSelect ''yt1'' keyboardOpen)) Keyboard"
    using t2 4 by blast
  have 10: "panelVisible (uiSystem (showSongSearch_then Resolved keyboardOpen)) Keyboard"
    using t2 4 by blast
  from 1 2 3 5 6 7 8 9 10 show ?thesis by blast
qed

section \<open>Properties of the retry thunk\<close>



























end
